theory Spec2Isabelle
  imports Main
begin

unbundle bit_operations_syntax

section \<open>EightBall: the language front end of \<^verbatim>\<open>eightball.c\<close>\<close>

text \<open>
  The embedding follows the Linux build of \<^verbatim>\<open>eightball.c\<close> (\<^verbatim>\<open>__GNUC__\<close> defined,
  none of \<^verbatim>\<open>CC65\<close>, \<^verbatim>\<open>CBM\<close>, \<^verbatim>\<open>A2E\<close>, \<^verbatim>\<open>EXTMEM\<close>): \<^verbatim>\<open>int\<close> and pointers are 32 bits wide,
  the list initialiser is written with braces, and \<^verbatim>\<open>|\<close> is the bitwise or.

  \<^item> The globals of the C file are the fields of the record \<open>state\<close>; every function
    takes the state and returns it updated.
  \<^item> A C \<^verbatim>\<open>int\<close> is an Isabelle \<open>int\<close>. Signed overflow is undefined behaviour in C: an
    arithmetic result outside the 32 bit range is the outcome \<open>Undefined\<close>.
  \<^item> \<^verbatim>\<open>txtPtr\<close> is the pair of the buffer it points into (\<open>txtBuf\<close>) and the offset in it
    (\<open>txtPtr\<close>); a text pointer saved on the return stack is saved as its offset, and the
    buffer is the line that \<^verbatim>\<open>backtotop\<close> reloads. A read behind the terminator gives \<open>NUL\<close>.
  \<^item> The linked lists (program lines, variables, subroutine tables) are lists in link
    order; a pointer to an element is its index, \<^verbatim>\<open>NULL\<close> is \<open>None\<close>.
  \<^item> \<^verbatim>\<open>longjmp\<close>, \<^verbatim>\<open>exit\<close> and undefined behaviour are outcomes of their own, so that every
    way of leaving a C function is a branch of the model.
\<close>

subsection \<open>Constants and tokens\<close>

abbreviation VARNUMCHARS :: nat where "VARNUMCHARS \<equiv> 4"
abbreviation SUBRNUMCHARS :: nat where "SUBRNUMCHARS \<equiv> 8"
abbreviation STACKSZ :: nat where "STACKSZ \<equiv> 16"
abbreviation RETSTACKSZ :: nat where "RETSTACKSZ \<equiv> 64"

abbreviation TOK_POW :: nat where "TOK_POW \<equiv> 245"
abbreviation TOK_DIV :: nat where "TOK_DIV \<equiv> 246"
abbreviation TOK_MOD :: nat where "TOK_MOD \<equiv> 247"
abbreviation TOK_MUL :: nat where "TOK_MUL \<equiv> 248"
abbreviation TOK_ADD :: nat where "TOK_ADD \<equiv> 249"
abbreviation TOK_SUB :: nat where "TOK_SUB \<equiv> 250"
abbreviation TOK_GT :: nat where "TOK_GT \<equiv> 251"
abbreviation TOK_LT :: nat where "TOK_LT \<equiv> 252"
abbreviation TOK_BITAND :: nat where "TOK_BITAND \<equiv> 253"
abbreviation TOK_BITOR :: nat where "TOK_BITOR \<equiv> 254"
abbreviation TOK_BITXOR :: nat where "TOK_BITXOR \<equiv> 255"

abbreviation TOK_EQL :: nat where "TOK_EQL \<equiv> 237"
abbreviation TOK_NEQL :: nat where "TOK_NEQL \<equiv> 238"
abbreviation TOK_GTE :: nat where "TOK_GTE \<equiv> 239"
abbreviation TOK_LTE :: nat where "TOK_LTE \<equiv> 240"
abbreviation TOK_AND :: nat where "TOK_AND \<equiv> 241"
abbreviation TOK_OR :: nat where "TOK_OR \<equiv> 242"
abbreviation TOK_LSH :: nat where "TOK_LSH \<equiv> 243"
abbreviation TOK_RSH :: nat where "TOK_RSH \<equiv> 244"

abbreviation TOK_UNM :: nat where "TOK_UNM \<equiv> 231"
abbreviation TOK_UNP :: nat where "TOK_UNP \<equiv> 232"
abbreviation TOK_NOT :: nat where "TOK_NOT \<equiv> 233"
abbreviation TOK_BITNOT :: nat where "TOK_BITNOT \<equiv> 234"
abbreviation TOK_STAR :: nat where "TOK_STAR \<equiv> 235"
abbreviation TOK_CARET :: nat where "TOK_CARET \<equiv> 236"

abbreviation SENTINEL :: nat where "SENTINEL \<equiv> 50"
abbreviation ILLEGAL :: nat where "ILLEGAL \<equiv> 100"

definition IS1CHBINARY :: "nat \<Rightarrow> bool" where
  "IS1CHBINARY tok = (tok \<ge> TOK_POW \<and> tok \<le> TOK_BITXOR)"

definition IS2CHBINARY :: "nat \<Rightarrow> bool" where
  "IS2CHBINARY tok = (tok \<ge> TOK_EQL \<and> tok \<le> TOK_RSH)"

definition ISUNARY :: "nat \<Rightarrow> bool" where
  "ISUNARY tok = (tok \<ge> TOK_UNM \<and> tok \<le> TOK_CARET)"

abbreviation ERR_FIRST :: nat where "ERR_FIRST \<equiv> 101"
abbreviation ERR_NOIF :: nat where "ERR_NOIF \<equiv> 101"
abbreviation ERR_NOFOR :: nat where "ERR_NOFOR \<equiv> 102"
abbreviation ERR_NOWHILE :: nat where "ERR_NOWHILE \<equiv> 103"
abbreviation ERR_NOSUB :: nat where "ERR_NOSUB \<equiv> 104"
abbreviation ERR_STACK :: nat where "ERR_STACK \<equiv> 105"
abbreviation ERR_COMPLEX :: nat where "ERR_COMPLEX \<equiv> 106"
abbreviation ERR_VAR :: nat where "ERR_VAR \<equiv> 107"
abbreviation ERR_REDEF :: nat where "ERR_REDEF \<equiv> 108"
abbreviation ERR_EXPECT :: nat where "ERR_EXPECT \<equiv> 109"
abbreviation ERR_EXTRA :: nat where "ERR_EXTRA \<equiv> 110"
abbreviation ERR_DIM :: nat where "ERR_DIM \<equiv> 111"
abbreviation ERR_SUBSCR :: nat where "ERR_SUBSCR \<equiv> 112"
abbreviation ERR_RUNSUB :: nat where "ERR_RUNSUB \<equiv> 113"
abbreviation ERR_STR :: nat where "ERR_STR \<equiv> 114"
abbreviation ERR_FILE :: nat where "ERR_FILE \<equiv> 115"
abbreviation ERR_LINE :: nat where "ERR_LINE \<equiv> 116"
abbreviation ERR_EXPR :: nat where "ERR_EXPR \<equiv> 117"
abbreviation ERR_NUM :: nat where "ERR_NUM \<equiv> 118"
abbreviation ERR_ARG :: nat where "ERR_ARG \<equiv> 119"
abbreviation ERR_TYPE :: nat where "ERR_TYPE \<equiv> 120"
abbreviation ERR_DIVZERO :: nat where "ERR_DIVZERO \<equiv> 121"
abbreviation ERR_VALUE :: nat where "ERR_VALUE \<equiv> 122"
abbreviation ERR_CONST :: nat where "ERR_CONST \<equiv> 123"
abbreviation ERR_STCONST :: nat where "ERR_STCONST \<equiv> 124"
abbreviation ERR_TOOLONG :: nat where "ERR_TOOLONG \<equiv> 125"
abbreviation ERR_LINK :: nat where "ERR_LINK \<equiv> 126"

definition errmsgs :: "string list" where
  "errmsgs =
    [''no if'', ''no for'', ''no while'', ''no sub'', ''stack'', ''complex'',
     ''expect var'', ''redef'', ''expected '', ''extra'', ''bad dim'', ''bad idx'',
     ''ran into sub'', ''bad str'', ''file'', ''bad line#'', ''bad expr'', ''bad num'',
     ''arg'', ''type'', ''div/0'', ''bad val'', ''not const'', ''const'', ''too long'',
     ''link'']"

abbreviation CALLFRAME :: int where "CALLFRAME \<equiv> 0xfffe"
abbreviation IFFRAME :: int where "IFFRAME \<equiv> 0xfffd"
abbreviation FORFRAME_B :: int where "FORFRAME_B \<equiv> 0xfffc"
abbreviation FORFRAME_W :: int where "FORFRAME_W \<equiv> 0xfffb"
abbreviation WHILEFRAME :: int where "WHILEFRAME \<equiv> 0xfffa"

abbreviation TYPE_CONST :: nat where "TYPE_CONST \<equiv> 0"
abbreviation TYPE_WORD :: nat where "TYPE_WORD \<equiv> 1"
abbreviation TYPE_BYTE :: nat where "TYPE_BYTE \<equiv> 2"

abbreviation RET_SUCCESS :: nat where "RET_SUCCESS \<equiv> 0"
abbreviation RET_ERROR :: nat where "RET_ERROR \<equiv> 1"

text \<open>\<^verbatim>\<open>sizeof(int)\<close> and \<^verbatim>\<open>sizeof(var_t)\<close> (four name bytes, the type byte, padding, and the
  \<^verbatim>\<open>next\<close> pointer) of the 32 bit build.\<close>

abbreviation sizeof_int :: int where "sizeof_int \<equiv> 4"
abbreviation sizeof_var_t :: int where "sizeof_var_t \<equiv> 12"
abbreviation HEAP1SZ :: int where "HEAP1SZ \<equiv> 1024 * 16"

text \<open>Modelled from the spec: \<^verbatim>\<open>enum bytecode\<close> is declared in \<^verbatim>\<open>eightballvm.h\<close>, which is
  not part of the sources. The constructors are the opcode names that \<^verbatim>\<open>eightball.c\<close>
  emits (section 6 of the specification lists the same set); their numeric values are not
  known, so an emitted opcode is kept symbolic.\<close>

datatype bytecode =
    VM_END | VM_LDIMM | VM_LDAWORD | VM_LDAWORDIMM | VM_LDABYTE | VM_LDABYTEIMM
  | VM_STAWORD | VM_STAWORDIMM | VM_STABYTE | VM_STABYTEIMM
  | VM_LDRWORD | VM_LDRWORDIMM | VM_LDRBYTE | VM_LDRBYTEIMM
  | VM_STRWORD | VM_STRWORDIMM | VM_STRBYTE | VM_STRBYTEIMM
  | VM_SWAP | VM_DUP | VM_DROP | VM_PSHWORD | VM_PSHBYTE | VM_POPWORD | VM_POPBYTE
  | VM_SPTOFP | VM_FPTOSP | VM_RTOA | VM_DISCARD
  | VM_INC | VM_DEC | VM_ADD | VM_SUB | VM_MUL | VM_DIV | VM_MOD | VM_NEG
  | VM_GT | VM_GTE | VM_LT | VM_LTE | VM_EQL | VM_NEQL
  | VM_AND | VM_OR | VM_NOT | VM_BITAND | VM_BITOR | VM_BITXOR | VM_BITNOT
  | VM_LSH | VM_RSH | VM_JMPIMM | VM_BRNCHIMM | VM_JSRIMM | VM_RTS
  | VM_PRDEC | VM_PRHEX | VM_PRCH | VM_PRSTR | VM_PRMSG | VM_KBDCH | VM_KBDLN

text \<open>One byte of emitted code: an opcode, or a byte of an immediate operand.\<close>

datatype cell = Op bytecode | Byte nat

subsection \<open>The globals\<close>

text \<open>\<^verbatim>\<open>struct vartabent\<close> together with the words that \<^verbatim>\<open>alloc1\<close> places behind it:
  \<open>vaddr\<close> is the address of the entry, \<open>vword\<close> the word at \<^verbatim>\<open>vaddr + sizeof(var_t)\<close>
  (a scalar's value, an array's body pointer, a frame marker's saved \<^verbatim>\<open>varsend\<close>),
  \<open>vdim\<close> the next word (an array's element count) and \<open>vbody\<close> the array elements that
  follow the header when the body was allocated with it (\<open>None\<close> for an element that
  has not been written since the allocation).\<close>

record vartabent =
  vname :: string
  vtype :: nat
  vaddr :: int
  vword :: int
  vdim :: int
  vbody :: "int option list"

text \<open>\<^verbatim>\<open>struct subtabent\<close>: name (at most \<^verbatim>\<open>SUBRNUMCHARS\<close> characters) and address.\<close>

record subtabent =
  sname :: string
  saddr :: int

text \<open>The last three fields are not globals of the C file: \<^verbatim>\<open>RTPCSTART\<close>,
  \<^verbatim>\<open>RTCALLSTACKTOP\<close> and \<^verbatim>\<open>RTCALLSTACKLIM\<close> are macros of \<^verbatim>\<open>eightballvm.h\<close>, which is not
  part of the sources; their values are parameters of the model and no function changes
  them. \<open>outp\<close> is the console, \<open>keys\<close> the answers of \<^verbatim>\<open>checkInterrupted\<close> to come, and
  \<open>bytefile\<close> the bytecode file once it has been written.\<close>

record state =
  compile :: bool
  compilingsub :: bool
  onlyconstants :: bool
  compiletimelookup :: bool
  readbuf :: string
  lnbuf :: string
  filename :: string
  txtBuf :: string
  txtPtr :: nat
  operand_stack :: "int list"
  operator_stack :: "nat list"
  return_stack :: "int list"
  operatorSP :: nat
  operandSP :: nat
  returnSP :: nat
  rtPC :: int
  rtSP :: int
  rtFP :: int
  rtPCBeforeEval :: int
  codemem :: "cell list"
  program :: "string list"
  current :: "nat option"
  counter :: int
  retregister :: int
  heap1 :: int
  heap1Ptr :: int
  editmode :: nat
  skipFlag :: bool
  calllevel :: int
  vars :: "vartabent list"
  varslocal :: "nat option"
  subs :: "subtabent list"
  calls :: "subtabent list"
  outp :: string
  keys :: "bool list"
  bytefile :: "cell list option"
  RTPCSTART :: int
  RTCALLSTACKTOP :: int
  RTCALLSTACKLIM :: int

text \<open>How a C function can end: it returns a value, it leaves by \<^verbatim>\<open>longjmp(jumpbuf, 1)\<close>,
  it calls \<^verbatim>\<open>exit\<close>, its behaviour is undefined in C (a read outside an array, an
  uninitialised local, signed overflow, a pointer the model cannot resolve), it reaches a
  collaborator that is outside the model (files, keyboard, the line editor, the parse
  level of the compiler), or the model ran out of fuel.\<close>

datatype 'a result =
    Ret 'a state
  | Longjmp state
  | Exit nat state
  | Undefined
  | Unmodelled
  | OutOfFuel

definition onret :: "'a result \<Rightarrow> ('a \<Rightarrow> state \<Rightarrow> 'b result) \<Rightarrow> 'b result" where
  "onret r k =
    (case r of
       Ret v s \<Rightarrow> k v s
     | Longjmp s \<Rightarrow> Longjmp s
     | Exit n s \<Rightarrow> Exit n s
     | Undefined \<Rightarrow> Undefined
     | Unmodelled \<Rightarrow> Unmodelled
     | OutOfFuel \<Rightarrow> OutOfFuel)"

abbreviation HEAP1LIM :: "state \<Rightarrow> int" where "HEAP1LIM s \<equiv> heap1 s"
abbreviation HEAP1TOP :: "state \<Rightarrow> int" where "HEAP1TOP s \<equiv> heap1 s + HEAP1SZ - 1"

definition in_int_range :: "int \<Rightarrow> bool" where
  "in_int_range v = (- 2147483648 \<le> v \<and> v \<le> 2147483647)"

subsection \<open>Console output\<close>

text \<open>Modelled from the spec: \<^verbatim>\<open>printchar\<close>, \<^verbatim>\<open>print\<close> and \<^verbatim>\<open>printdec\<close> are declared in
  \<^verbatim>\<open>eightballutils.h\<close>, which is not part of the sources. They write a character, a
  string and the decimal digits of a number to the console; the console is the field
  \<open>outp\<close>. What \<^verbatim>\<open>printdec\<close> writes for a negative argument is not known.\<close>

definition printchar :: "char \<Rightarrow> state \<Rightarrow> state" where
  "printchar c s = s\<lparr>outp := outp s @ [c]\<rparr>"

definition print :: "string \<Rightarrow> state \<Rightarrow> state" where
  "print str s = s\<lparr>outp := outp s @ str\<rparr>"

fun digits :: "nat \<Rightarrow> nat \<Rightarrow> string" where
  "digits 0 n = []"
| "digits (Suc f) n =
    (if n < 10 then [char_of (48 + n)] else digits f (n div 10) @ [char_of (48 + n mod 10)])"

definition printdec :: "int \<Rightarrow> state \<Rightarrow> unit result" where
  "printdec v s =
    (if 0 \<le> v \<and> in_int_range v then Ret () (print (digits 10 (nat v)) s) else Unmodelled)"

definition error :: "nat \<Rightarrow> state \<Rightarrow> state" where
  "error errcode s = print (errmsgs ! (errcode - ERR_FIRST)) (printchar (CHR ''?'') s)"

subsection \<open>Operator precedence\<close>

text \<open>\<^verbatim>\<open>getprecedence\<close>; \<open>None\<close> is the \<^verbatim>\<open>default:\<close> branch, which calls \<^verbatim>\<open>exit(99)\<close>.\<close>

definition getprecedence :: "nat \<Rightarrow> nat option" where
  "getprecedence token =
    (if token = TOK_UNP \<or> token = TOK_UNM \<or> token = TOK_STAR \<or> token = TOK_CARET
        \<or> token = TOK_NOT \<or> token = TOK_BITNOT then Some 11
     else if token = TOK_POW \<or> token = TOK_DIV \<or> token = TOK_MUL \<or> token = TOK_MOD
       then Some 10
     else if token = TOK_ADD \<or> token = TOK_SUB then Some 9
     else if token = TOK_LSH \<or> token = TOK_RSH then Some 8
     else if token = TOK_GT \<or> token = TOK_GTE \<or> token = TOK_LT \<or> token = TOK_LTE
       then Some 7
     else if token = TOK_EQL \<or> token = TOK_NEQL then Some 6
     else if token = TOK_BITAND then Some 5
     else if token = TOK_BITXOR then Some 4
     else if token = TOK_BITOR then Some 3
     else if token = TOK_AND then Some 2
     else if token = TOK_OR then Some 1
     else if token = SENTINEL then Some 0
     else None)"

subsection \<open>The bytecode emitter\<close>

text \<open>\<^verbatim>\<open>codeptr\<close> is \<^verbatim>\<open>CODESTART\<close> plus the length of \<open>codemem\<close>. The two bytes of an
  immediate are the low and the next byte of the \<^verbatim>\<open>int\<close> (little endian).\<close>

definition lobyte :: "int \<Rightarrow> cell" where
  "lobyte w = Byte (nat (w mod 256))"

definition hibyte :: "int \<Rightarrow> cell" where
  "hibyte w = Byte (nat ((w div 256) mod 256))"

definition emit :: "bytecode \<Rightarrow> state \<Rightarrow> state" where
  "emit c s = s\<lparr>codemem := codemem s @ [Op c], rtPC := rtPC s + 1\<rparr>"

definition emit_imm :: "bytecode \<Rightarrow> int \<Rightarrow> state \<Rightarrow> state" where
  "emit_imm c w s =
     s\<lparr>codemem := codemem s @ [Op c, lobyte w, hibyte w], rtPC := rtPC s + 3\<rparr>"

abbreviation emitldi :: "int \<Rightarrow> state \<Rightarrow> state" where
  "emitldi x \<equiv> emit_imm VM_LDIMM x"

text \<open>\<^verbatim>\<open>emit_fixup\<close> writes at \<^verbatim>\<open>CODESTART + address - RTPCSTART\<close>. A fixup outside the
  code emitted so far would write to other parts of heap 1: \<open>None\<close>.\<close>

definition emit_fixup :: "int \<Rightarrow> int \<Rightarrow> state \<Rightarrow> state option" where
  "emit_fixup address w s =
    (let k = address - RTPCSTART s in
     if 0 \<le> k \<and> k + 1 < int (length (codemem s))
     then Some (s\<lparr>codemem := (codemem s)[nat k := lobyte w, nat k + 1 := hibyte w]\<rparr>)
     else None)"

subsection \<open>Expression stacks\<close>

definition push_operator_stack :: "nat \<Rightarrow> state \<Rightarrow> unit result" where
  "push_operator_stack operator s =
    (if operatorSP s \<ge> STACKSZ then Undefined
     else
       let s1 = s\<lparr>operator_stack := (operator_stack s)[operatorSP s := operator]\<rparr> in
       if operatorSP s1 = 0 then Longjmp (error ERR_COMPLEX s1)
       else Ret () (s1\<lparr>operatorSP := operatorSP s1 - 1\<rparr>))"

definition pop_operator_stack :: "state \<Rightarrow> nat result" where
  "pop_operator_stack s =
    (if operatorSP s = STACKSZ - 1 then Longjmp s
     else if operatorSP s + 1 \<ge> STACKSZ then Undefined
     else
       let s1 = s\<lparr>operatorSP := operatorSP s + 1\<rparr> in
       Ret (operator_stack s1 ! operatorSP s1) s1)"

definition top_operator_stack :: "state \<Rightarrow> nat option" where
  "top_operator_stack s =
    (if operatorSP s + 1 < STACKSZ then Some (operator_stack s ! (operatorSP s + 1))
     else None)"

definition push_operand_stack :: "int \<Rightarrow> state \<Rightarrow> unit result" where
  "push_operand_stack operand s =
    (if compile s then Ret () (emitldi operand s)
     else if operandSP s \<ge> STACKSZ then Undefined
     else
       let s1 = s\<lparr>operand_stack := (operand_stack s)[operandSP s := operand]\<rparr> in
       if operandSP s1 = 0 then Longjmp (error ERR_COMPLEX s1)
       else Ret () (s1\<lparr>operandSP := operandSP s1 - 1\<rparr>))"

definition pop_operand_stack :: "state \<Rightarrow> int result" where
  "pop_operand_stack s =
    (if compile s then Ret 0 s
     else if operandSP s = STACKSZ - 1 then Longjmp s
     else if operandSP s + 1 \<ge> STACKSZ then Undefined
     else
       let s1 = s\<lparr>operandSP := operandSP s + 1\<rparr> in
       Ret (operand_stack s1 ! operandSP s1) s1)"

subsection \<open>Variables in heap 1\<close>

definition is_array :: "vartabent \<Rightarrow> bool" where
  "is_array v = (vtype v AND 0x10 \<noteq> 0)"

definition basetype :: "vartabent \<Rightarrow> nat" where
  "basetype v = vtype v AND 0x0f"

text \<open>The address of the array body that follows the entry and its two header words.\<close>

definition body_addr :: "vartabent \<Rightarrow> int" where
  "body_addr v = vaddr v + sizeof_var_t + 2 * sizeof_int"

text \<open>Element size of the body of \<open>v\<close> in bytes.\<close>

definition elsize :: "vartabent \<Rightarrow> int" where
  "elsize v = (if basetype v = TYPE_WORD then sizeof_int else 1)"

text \<open>The cell that the address \<open>a\<close> names inside the entry \<open>v\<close>, for an access of \<open>sz\<close>
  bytes: the value word (or byte) of a scalar, or an element of the body.
  \<open>Some None\<close> is the value slot, \<open>Some (Some i)\<close> is element \<open>i\<close>.\<close>

definition cell_of :: "vartabent \<Rightarrow> int \<Rightarrow> int \<Rightarrow> nat option option" where
  "cell_of v sz a =
    (if elsize v \<noteq> sz then None
     else if \<not> is_array v then (if a = vaddr v + sizeof_var_t then Some None else None)
     else if body_addr v \<le> a \<and> (a - body_addr v) mod sz = 0
             \<and> (a - body_addr v) div sz < int (length (vbody v))
       then Some (Some (nat ((a - body_addr v) div sz)))
     else None)"

text \<open>Reading \<open>sz\<close> bytes at address \<open>a\<close>: \<open>None\<close> when no variable owns a cell of that
  size at \<open>a\<close> or when the element was never written.\<close>

fun peek :: "vartabent list \<Rightarrow> int \<Rightarrow> int \<Rightarrow> int option" where
  "peek [] sz a = None"
| "peek (v # vs) sz a =
    (case cell_of v sz a of
       None \<Rightarrow> peek vs sz a
     | Some None \<Rightarrow> Some (vword v)
     | Some (Some i) \<Rightarrow> vbody v ! i)"

fun poke :: "vartabent list \<Rightarrow> int \<Rightarrow> int \<Rightarrow> int \<Rightarrow> vartabent list option" where
  "poke [] sz a x = None"
| "poke (v # vs) sz a x =
    (case cell_of v sz a of
       None \<Rightarrow> map_option ((#) v) (poke vs sz a x)
     | Some None \<Rightarrow> Some (v\<lparr>vword := x\<rparr> # vs)
     | Some (Some i) \<Rightarrow> Some (v\<lparr>vbody := (vbody v)[i := Some x]\<rparr> # vs))"

text \<open>A value stored through an \<^verbatim>\<open>unsigned char *\<close> keeps its low eight bits.\<close>

definition to_byte :: "int \<Rightarrow> int" where
  "to_byte x = x mod 256"

subsection \<open>Applying an operator\<close>

text \<open>\<^verbatim>\<open>_pow\<close> (an Isabelle name cannot begin with an underscore): the loop multiplies \<^verbatim>\<open>ret\<close> by \<^verbatim>\<open>x\<close> once for every \<^verbatim>\<open>i\<close> below \<^verbatim>\<open>y\<close>.\<close>

primrec pow_loop :: "nat \<Rightarrow> int \<Rightarrow> int \<Rightarrow> int" where
  "pow_loop 0 x ret = ret"
| "pow_loop (Suc n) x ret = pow_loop n x (ret * x)"

definition c_pow :: "int \<Rightarrow> int \<Rightarrow> int" where
  "c_pow x y = pow_loop (nat y) x 1"

text \<open>C division truncates towards zero and the remainder has the sign of the dividend.\<close>

definition c_div :: "int \<Rightarrow> int \<Rightarrow> int" where
  "c_div a b = sgn a * sgn b * (\<bar>a\<bar> div \<bar>b\<bar>)"

definition c_mod :: "int \<Rightarrow> int \<Rightarrow> int" where
  "c_mod a b = a - b * c_div a b"

definition of_bool_int :: "bool \<Rightarrow> int" where
  "of_bool_int b = (if b then 1 else 0)"

text \<open>The tail of \<^verbatim>\<open>pop_operator\<close>: \<^verbatim>\<open>push_operand_stack(result); return 0;\<close>.\<close>

definition push_result :: "int \<Rightarrow> state \<Rightarrow> nat result" where
  "push_result r s =
    (if in_int_range r then onret (push_operand_stack r s) (\<lambda>_ s1. Ret 0 s1)
     else Undefined)"

text \<open>A \<^verbatim>\<open>case\<close> of the form
  \<^verbatim>\<open>if (compile) { emit(c); return 0; } result = v; break;\<close>.\<close>

definition emit_or :: "bytecode \<Rightarrow> int \<Rightarrow> state \<Rightarrow> nat result" where
  "emit_or c v s = (if compile s then Ret 0 (emit c s) else push_result v s)"

definition shift_ok :: "int \<Rightarrow> bool" where
  "shift_ok n = (0 \<le> n \<and> n < 32)"

definition apply_binary :: "nat \<Rightarrow> int \<Rightarrow> int \<Rightarrow> state \<Rightarrow> nat result" where
  "apply_binary token operand1 operand2 s =
    (if token = TOK_POW then push_result (c_pow operand2 operand1) s
     else if token = TOK_MUL then emit_or VM_MUL (operand2 * operand1) s
     else if token = TOK_DIV then
       (if compile s then Ret 0 (emit VM_DIV s)
        else if operand1 = 0 then Ret 1 (error ERR_DIVZERO s)
        else push_result (c_div operand2 operand1) s)
     else if token = TOK_MOD then
       (if compile s then Ret 0 (emit VM_MOD s)
        else if operand1 = 0 then Ret 1 (error ERR_DIVZERO s)
        else push_result (c_mod operand2 operand1) s)
     else if token = TOK_ADD then emit_or VM_ADD (operand2 + operand1) s
     else if token = TOK_SUB then emit_or VM_SUB (operand2 - operand1) s
     else if token = TOK_GT then emit_or VM_GT (of_bool_int (operand2 > operand1)) s
     else if token = TOK_GTE then emit_or VM_GTE (of_bool_int (operand2 \<ge> operand1)) s
     else if token = TOK_LT then emit_or VM_LT (of_bool_int (operand2 < operand1)) s
     else if token = TOK_LTE then emit_or VM_LTE (of_bool_int (operand2 \<le> operand1)) s
     else if token = TOK_EQL then emit_or VM_EQL (of_bool_int (operand2 = operand1)) s
     else if token = TOK_NEQL then emit_or VM_NEQL (of_bool_int (operand2 \<noteq> operand1)) s
     else if token = TOK_AND then
       emit_or VM_AND (of_bool_int (operand2 \<noteq> 0 \<and> operand1 \<noteq> 0)) s
     else if token = TOK_OR then
       emit_or VM_OR (of_bool_int (operand2 \<noteq> 0 \<or> operand1 \<noteq> 0)) s
     else if token = TOK_BITAND then emit_or VM_BITAND (operand2 AND operand1) s
     else if token = TOK_BITOR then emit_or VM_BITOR (operand2 OR operand1) s
     else if token = TOK_BITXOR then emit_or VM_BITXOR (operand2 XOR operand1) s
     else if token = TOK_LSH then
       (if compile s then Ret 0 (emit VM_LSH s)
        else if shift_ok operand1 \<and> 0 \<le> operand2
          then push_result (push_bit (nat operand1) operand2) s
        else Undefined)
     else if token = TOK_RSH then
       (if compile s then Ret 0 (emit VM_RSH s)
        else if shift_ok operand1 then push_result (drop_bit (nat operand1) operand2) s
        else Undefined)
     else Exit 99 s)"

definition apply_unary :: "nat \<Rightarrow> int \<Rightarrow> state \<Rightarrow> nat result" where
  "apply_unary token operand1 s =
    (if token = TOK_UNM then emit_or VM_NEG (- operand1) s
     else if token = TOK_UNP then (if compile s then Ret 0 s else push_result operand1 s)
     else if token = TOK_NOT then emit_or VM_NOT (of_bool_int (operand1 = 0)) s
     else if token = TOK_BITNOT then emit_or VM_BITNOT (NOT operand1) s
     else if token = TOK_STAR then
       (if compile s then Ret 0 (emit VM_LDAWORD s)
        else case peek (vars s) sizeof_int operand1 of
               None \<Rightarrow> Undefined
             | Some r \<Rightarrow> push_result r s)
     else if token = TOK_CARET then
       (if compile s then Ret 0 (emit VM_LDABYTE s)
        else case peek (vars s) 1 operand1 of
               None \<Rightarrow> Undefined
             | Some r \<Rightarrow> push_result r s)
     else Exit 99 s)"

text \<open>\<^verbatim>\<open>pop_operator\<close>: status 0 on success, 1 on error.\<close>

definition pop_operator :: "state \<Rightarrow> nat result" where
  "pop_operator s =
    onret (pop_operator_stack s) (\<lambda>token s1.
    onret (pop_operand_stack s1) (\<lambda>operand1 s2.
      if \<not> ISUNARY token
      then onret (pop_operand_stack s2) (\<lambda>operand2 s3. apply_binary token operand1 operand2 s3)
      else apply_unary token operand1 s2))"

text \<open>\<^verbatim>\<open>push_operator\<close>. Every round of its \<^verbatim>\<open>while\<close> loop pops one operator, so the loop
  makes at most \<^verbatim>\<open>STACKSZ\<close> rounds; the first argument counts them down.\<close>

primrec push_operator_loop :: "nat \<Rightarrow> nat \<Rightarrow> state \<Rightarrow> nat result" where
  "push_operator_loop 0 operator_token s = OutOfFuel"
| "push_operator_loop (Suc n) operator_token s =
    (case top_operator_stack s of
       None \<Rightarrow> Undefined
     | Some tp \<Rightarrow>
        (case getprecedence tp of
           None \<Rightarrow> Exit 99 s
         | Some ptop \<Rightarrow>
            (case getprecedence operator_token of
               None \<Rightarrow> Exit 99 s
             | Some pnew \<Rightarrow>
                if ptop \<ge> pnew
                then onret (pop_operator s) (\<lambda>st s1.
                       if st \<noteq> 0 then Ret 1 s1 else push_operator_loop n operator_token s1)
                else onret (push_operator_stack operator_token s) (\<lambda>_ s1. Ret 0 s1))))"

definition push_operator :: "nat \<Rightarrow> state \<Rightarrow> nat result" where
  "push_operator operator_token s = push_operator_loop (Suc STACKSZ) operator_token s"

subsection \<open>The lexical cursor\<close>

abbreviation NUL :: char where "NUL \<equiv> CHR 0x00"

definition chr_at :: "string \<Rightarrow> nat \<Rightarrow> char" where
  "chr_at b i = (if i < length b then b ! i else NUL)"

text \<open>\<^verbatim>\<open>*txtPtr\<close> and the text from \<^verbatim>\<open>txtPtr\<close> on.\<close>

definition cur :: "state \<Rightarrow> char" where
  "cur s = chr_at (txtBuf s) (txtPtr s)"

definition rest :: "state \<Rightarrow> string" where
  "rest s = drop (txtPtr s) (txtBuf s)"

definition advance :: "nat \<Rightarrow> state \<Rightarrow> state" where
  "advance n s = s\<lparr>txtPtr := txtPtr s + n\<rparr>"

definition isalphach :: "char \<Rightarrow> bool" where
  "isalphach ch =
    ((of_char ch \<ge> (97::nat) \<and> of_char ch \<le> (122::nat))
     \<or> (of_char ch \<ge> (65::nat) \<and> of_char ch \<le> (90::nat)))"

definition isdigitch :: "char \<Rightarrow> bool" where
  "isdigitch ch = (of_char ch \<ge> (48::nat) \<and> of_char ch \<le> (57::nat))"

definition isalnumch :: "char \<Rightarrow> bool" where
  "isalnumch ch = (isalphach ch \<or> isdigitch ch)"

text \<open>\<^verbatim>\<open>eatspace()\<close>: the number of blanks at the head of the text, then the macro.\<close>

fun spaces :: "string \<Rightarrow> nat" where
  "spaces [] = 0"
| "spaces (c # cs) = (if c = CHR '' '' then Suc (spaces cs) else 0)"

definition eatspace :: "state \<Rightarrow> state" where
  "eatspace s = advance (spaces (rest s)) s"

definition expect :: "char \<Rightarrow> state \<Rightarrow> nat \<times> state" where
  "expect token s =
    (if cur s = token then (0, eatspace (advance 1 s))
     else (1, printchar token (error ERR_EXPECT s)))"

text \<open>\<^verbatim>\<open>binary()\<close> and \<^verbatim>\<open>unary()\<close> walk the operator tables; the token counts up with the
  table index.\<close>

fun binary2 :: "string \<Rightarrow> string \<Rightarrow> nat \<Rightarrow> char \<Rightarrow> char \<Rightarrow> nat option" where
  "binary2 (a # as) (b # bs) tok c0 c1 =
    (if a = c0 \<and> b = c1 then Some tok else binary2 as bs (Suc tok) c0 c1)"
| "binary2 _ _ tok c0 c1 = None"

fun optable :: "string \<Rightarrow> nat \<Rightarrow> char \<Rightarrow> nat option" where
  "optable [] tok c0 = None"
| "optable (a # as) tok c0 = (if a = c0 then Some tok else optable as (Suc tok) c0)"

definition binaryops :: string where "binaryops = ''^/%*+-><&|!''"
definition binaryops1 :: string where "binaryops1 = ''=!><&|<>''"
definition binaryops2 :: string where "binaryops2 = ''====&|<>''"
definition unaryops :: string where "unaryops = ''-+!~*^''"

definition binary :: "state \<Rightarrow> nat" where
  "binary s =
    (case (if cur s \<noteq> NUL
           then binary2 binaryops1 binaryops2 TOK_EQL (cur s) (chr_at (txtBuf s) (txtPtr s + 1))
           else None) of
       Some tok \<Rightarrow> tok
     | None \<Rightarrow>
        (case optable binaryops TOK_POW (cur s) of
           Some tok \<Rightarrow> tok
         | None \<Rightarrow> ILLEGAL))"

definition unary :: "state \<Rightarrow> nat" where
  "unary s = (case optable unaryops TOK_UNM (cur s) of Some tok \<Rightarrow> tok | None \<Rightarrow> ILLEGAL)"

text \<open>\<^verbatim>\<open>parseint\<close> and \<^verbatim>\<open>parsehexint\<close>: the value of the digits at the head of the text and
  how many there are. A literal that overflows \<^verbatim>\<open>int\<close> is \<open>Undefined\<close>.\<close>

fun digits_val :: "string \<Rightarrow> int \<Rightarrow> nat \<Rightarrow> int \<times> nat" where
  "digits_val [] v n = (v, n)"
| "digits_val (c # cs) v n =
    (if isdigitch c then digits_val cs (v * 10 + (int (of_char c) - 48)) (Suc n) else (v, n))"

definition parseint :: "state \<Rightarrow> (nat \<times> int) result" where
  "parseint s =
    (if cur s = NUL then Ret (1, 0) s
     else if \<not> isdigitch (cur s) then Ret (1, 0) s
     else case digits_val (rest s) 0 0 of
            (v, n) \<Rightarrow> if in_int_range v then Ret (0, v) (advance n s) else Undefined)"

definition ishexch :: "char \<Rightarrow> bool" where
  "ishexch c = (isdigitch c \<or> (of_char c \<ge> (97::nat) \<and> of_char c \<le> (102::nat)))"

definition hexchar2val :: "char \<Rightarrow> int" where
  "hexchar2val c =
    (if of_char c \<ge> (97::nat) \<and> of_char c \<le> (102::nat) then int (of_char c) - 97 + 10
     else int (of_char c) - 48)"

fun hexdigits_val :: "string \<Rightarrow> int \<Rightarrow> nat \<Rightarrow> int \<times> nat" where
  "hexdigits_val [] v n = (v, n)"
| "hexdigits_val (c # cs) v n =
    (if ishexch c then hexdigits_val cs (v * 16 + hexchar2val c) (Suc n) else (v, n))"

definition parsehexint :: "state \<Rightarrow> (nat \<times> int) result" where
  "parsehexint s =
    (if \<not> ishexch (cur s) then Ret (1, 0) s
     else case hexdigits_val (rest s) 0 0 of
            (v, n) \<Rightarrow> if in_int_range v then Ret (0, v) (advance n s) else Undefined)"

subsection \<open>The return stack\<close>

definition push_return :: "int \<Rightarrow> state \<Rightarrow> unit result" where
  "push_return linenum s =
    (if returnSP s \<ge> RETSTACKSZ then Undefined
     else
       let s1 = s\<lparr>return_stack := (return_stack s)[returnSP s := linenum]\<rparr> in
       if returnSP s1 = 0 then Longjmp (error ERR_STACK s1)
       else Ret () (s1\<lparr>returnSP := returnSP s1 - 1\<rparr>))"

definition pop_return :: "state \<Rightarrow> int result" where
  "pop_return s =
    (if returnSP s = RETSTACKSZ - 1 then Longjmp (error ERR_STACK s)
     else if returnSP s + 1 \<ge> RETSTACKSZ then Undefined
     else
       let s1 = s\<lparr>returnSP := returnSP s + 1\<rparr> in
       Ret (return_stack s1 ! returnSP s1) s1)"

text \<open>\<^verbatim>\<open>return_stack[returnSP + k]\<close>; \<open>None\<close> is a read outside the array.\<close>

definition rs_at :: "state \<Rightarrow> nat \<Rightarrow> int option" where
  "rs_at s k =
    (if returnSP s + k < RETSTACKSZ then Some (return_stack s ! (returnSP s + k)) else None)"

text \<open>\<open>n\<close> calls of \<^verbatim>\<open>pop_return()\<close> whose values are dropped.\<close>

primrec pop_returns :: "nat \<Rightarrow> state \<Rightarrow> unit result" where
  "pop_returns 0 s = Ret () s"
| "pop_returns (Suc n) s = onret (pop_return s) (\<lambda>_ s1. pop_returns n s1)"

subsection \<open>The program store\<close>

fun findline_loop :: "nat \<Rightarrow> nat \<Rightarrow> int \<Rightarrow> int \<Rightarrow> nat option \<times> int" where
  "findline_loop 0 i c linenum = (None, c)"
| "findline_loop (Suc n) i c linenum =
    (if c = linenum then (Some i, c) else findline_loop n (Suc i) (c + 1) linenum)"

definition findline :: "int \<Rightarrow> state \<Rightarrow> state" where
  "findline linenum s =
    (case findline_loop (length (program s)) 0 1 linenum of
       (cu, c) \<Rightarrow> s\<lparr>current := cu, counter := c\<rparr>)"

text \<open>\<^verbatim>\<open>new()\<close>.\<close>

definition new :: "state \<Rightarrow> state" where
  "new s = s\<lparr>program := [], current := None\<rparr>"

text \<open>\<^verbatim>\<open>backtotop\<close>. The saved text pointer is an offset; the buffer it points into is
  the input line when \<^verbatim>\<open>linenum\<close> is -1 and the reloaded program line otherwise.\<close>

definition backtotop :: "int \<Rightarrow> int \<Rightarrow> state \<Rightarrow> unit result" where
  "backtotop linenum oldTxtPtr s =
    (if oldTxtPtr < 0 then Undefined
     else if linenum = - 1
     then Ret () (s\<lparr>counter := - 1, current := None, txtBuf := lnbuf s, txtPtr := nat oldTxtPtr\<rparr>)
     else
       let s1 = findline (linenum + 1) s; s2 = s1\<lparr>counter := counter s1 - 1\<rparr> in
       case current s2 of
         None \<Rightarrow> Exit 99 s2
       | Some l \<Rightarrow> Ret () (s2\<lparr>txtBuf := program s2 ! l, txtPtr := nat oldTxtPtr\<rparr>))"

subsection \<open>The variable table\<close>

text \<open>\<^verbatim>\<open>alloc1\<close>: the new value of \<^verbatim>\<open>heap1Ptr\<close> is the address of the block.\<close>

definition alloc1 :: "int \<Rightarrow> state \<Rightarrow> int result" where
  "alloc1 bytes s =
    (if heap1Ptr s - bytes < HEAP1LIM s then Longjmp (print ''No mem (1)!\<newline>'' s)
     else Ret (heap1Ptr s - bytes) (s\<lparr>heap1Ptr := heap1Ptr s - bytes\<rparr>))"

definition free1 :: "int \<Rightarrow> state \<Rightarrow> state" where
  "free1 bytes s = s\<lparr>heap1Ptr := heap1Ptr s + bytes\<rparr>"

definition CLEARHEAP1 :: "state \<Rightarrow> state" where
  "CLEARHEAP1 s = s\<lparr>heap1Ptr := HEAP1TOP s\<rparr>"

text \<open>\<^verbatim>\<open>strncmp(name, ptr->name, VARNUMCHARS) == 0\<close> on names of at most four characters.\<close>

definition samename :: "string \<Rightarrow> string \<Rightarrow> bool" where
  "samename a b = (take VARNUMCHARS a = take VARNUMCHARS b)"

text \<open>The first entry from index \<open>i\<close> on that has the name; with \<open>stop\<close> the walk ends at
  the first frame marker (a name that begins with \<^verbatim>\<open>-\<close>).\<close>

fun findfrom :: "bool \<Rightarrow> string \<Rightarrow> nat \<Rightarrow> vartabent list \<Rightarrow> nat option" where
  "findfrom stop name i [] = None"
| "findfrom stop name i (v # vs) =
    (if stop \<and> chr_at (vname v) 0 = CHR ''-'' then None
     else if samename name (vname v) then Some i
     else findfrom stop name (Suc i) vs)"

text \<open>\<^verbatim>\<open>findintvar\<close>: the index of the entry and the value left in \<^verbatim>\<open>*local\<close>.\<close>

definition findintvar :: "string \<Rightarrow> bool \<Rightarrow> state \<Rightarrow> nat option \<times> bool" where
  "findintvar name local s =
    (case (case varslocal s of
             None \<Rightarrow> None
           | Some l \<Rightarrow> findfrom False name l (drop l (vars s))) of
       Some i \<Rightarrow> (Some i, True)
     | None \<Rightarrow>
         if local then (None, local)
         else (case findfrom True name 0 (vars s) of
                 Some i \<Rightarrow> (Some i, False)
               | None \<Rightarrow> (None, local)))"

definition clearvars :: "state \<Rightarrow> state" where
  "clearvars s = (CLEARHEAP1 s)\<lparr>vars := [], varslocal := None\<rparr>"

text \<open>Appending an entry: \<^verbatim>\<open>varsend->next = v; varsend = v;\<close> and, when the table was
  empty, \<^verbatim>\<open>varsbegin = v; varslocal = v;\<close>.\<close>

definition append_var :: "vartabent \<Rightarrow> state \<Rightarrow> state" where
  "append_var v s =
    s\<lparr>vars := vars s @ [v],
      varslocal := (if vars s = [] then Some 0 else varslocal s)\<rparr>"

text \<open>The address held by \<^verbatim>\<open>varsend\<close> (0 for \<^verbatim>\<open>NULL\<close>).\<close>

definition varsend_addr :: "state \<Rightarrow> int" where
  "varsend_addr s = (if vars s = [] then 0 else vaddr (last (vars s)))"

definition vars_markcallframe :: "state \<Rightarrow> unit result" where
  "vars_markcallframe s =
    (let s1 = s\<lparr>calllevel := calllevel s + 1\<rparr> in
     onret (alloc1 (sizeof_var_t + sizeof_int) s1) (\<lambda>a s2.
       Ret () (s2\<lparr>vars := vars s2 @
                  [\<lparr>vname = ''----'', vtype = TYPE_WORD, vaddr = a,
                    vword = varsend_addr s2, vdim = 0, vbody = []\<rparr>],
                varslocal := Some (length (vars s2))\<rparr>)))"

text \<open>The index of the entry at address \<open>a\<close>, and the last frame marker of a table.\<close>

fun index_of_addr :: "int \<Rightarrow> nat \<Rightarrow> vartabent list \<Rightarrow> nat option" where
  "index_of_addr a i [] = None"
| "index_of_addr a i (v # vs) = (if vaddr v = a then Some i else index_of_addr a (Suc i) vs)"

fun lastmarker :: "nat option \<Rightarrow> nat \<Rightarrow> vartabent list \<Rightarrow> nat option" where
  "lastmarker m i [] = m"
| "lastmarker m i (v # vs) =
    lastmarker (if chr_at (vname v) 0 = CHR ''-'' then Some i else m) (Suc i) vs"

text \<open>\<^verbatim>\<open>vars_deletecallframe\<close>. With \<^verbatim>\<open>varslocal\<close> \<^verbatim>\<open>NULL\<close>, or a saved pointer that is no
  entry of the table, the C code follows a wild pointer: \<open>Undefined\<close>.\<close>

definition vars_deletecallframe :: "state \<Rightarrow> unit result" where
  "vars_deletecallframe s =
    (case varslocal s of
       None \<Rightarrow> Undefined
     | Some l \<Rightarrow>
        if l \<ge> length (vars s) then Undefined
        else
          let newend = vword (vars s ! l) in
          if newend = 0 then
            Ret () ((CLEARHEAP1 s)\<lparr>vars := [], calllevel := calllevel s - 1, varslocal := None\<rparr>)
          else
            (case index_of_addr newend 0 (vars s) of
               None \<Rightarrow> Undefined
             | Some k \<Rightarrow>
                 let s1 = free1 (newend - varsend_addr s) s;
                     vs = take (Suc k) (vars s)
                 in Ret () (s1\<lparr>vars := vs, calllevel := calllevel s - 1,
                              varslocal := lastmarker None 0 vs\<rparr>)))"

definition upd_var :: "nat \<Rightarrow> (vartabent \<Rightarrow> vartabent) \<Rightarrow> state \<Rightarrow> state" where
  "upd_var i f s = s\<lparr>vars := (vars s)[i := f (vars s ! i)]\<rparr>"

text \<open>\<^verbatim>\<open>setintvar\<close>, interpreting. The code generation of the compiler is outside the
  model (\<open>Unmodelled\<close>).\<close>

definition setintvar :: "string \<Rightarrow> int \<Rightarrow> int \<Rightarrow> state \<Rightarrow> nat result" where
  "setintvar name idx val s =
    (case findintvar name False s of
       (None, _) \<Rightarrow> Ret 1 (error ERR_VAR s)
     | (Some i, local) \<Rightarrow>
        let ptr = vars s ! i in
        if vtype ptr AND 0x20 \<noteq> 0 then Ret 1 (error ERR_STCONST s)
        else if \<not> is_array ptr then
          (if idx \<noteq> - 1 then Ret 1 (error ERR_SUBSCR s)
           else if compile s then Unmodelled
           else if basetype ptr = TYPE_WORD then Ret 0 (upd_var i (\<lambda>v. v\<lparr>vword := val\<rparr>) s)
           else Ret 0 (upd_var i (\<lambda>v. v\<lparr>vword := to_byte val\<rparr>) s))
        else
          (if idx = - 1 then Ret 1 (error ERR_SUBSCR s)
           else if compile s then Unmodelled
           else if idx < 0 \<or> idx \<ge> vdim ptr then Ret 1 (error ERR_SUBSCR s)
           else if basetype ptr = TYPE_WORD then
             (case poke (vars s) sizeof_int (vword ptr + sizeof_int * idx) val of
                None \<Rightarrow> Undefined
              | Some vs \<Rightarrow> Ret 0 (s\<lparr>vars := vs\<rparr>))
           else
             (case poke (vars s) 1 (vword ptr + idx) (to_byte val) of
                None \<Rightarrow> Undefined
              | Some vs \<Rightarrow> Ret 0 (s\<lparr>vars := vs\<rparr>))))"

text \<open>\<^verbatim>\<open>getintvar\<close>, interpreting: the status, \<^verbatim>\<open>*val\<close> and \<^verbatim>\<open>*type\<close>.\<close>

definition getintvar :: "string \<Rightarrow> int \<Rightarrow> bool \<Rightarrow> state \<Rightarrow> (nat \<times> int \<times> nat) result" where
  "getintvar name idx address s =
    (case findintvar name False s of
       (None, _) \<Rightarrow> Ret (1, 0, 0) (error ERR_VAR s)
     | (Some i, local) \<Rightarrow>
        let ptr = vars s ! i; type = vtype ptr in
        if compiletimelookup s then Ret (0, vword ptr, type) (s\<lparr>compiletimelookup := False\<rparr>)
        else if \<not> is_array ptr then
          (if idx \<noteq> - 1 then Ret (1, 0, type) (error ERR_SUBSCR s)
           else if compile s then Unmodelled
           else if address then Ret (0, vaddr ptr + sizeof_var_t, type) s
           else Ret (0, vword ptr, type) s)
        else
          (let address1 = (address \<or> idx = - 1); idx1 = (if idx = - 1 then 0 else idx) in
           if compile s then Unmodelled
           else if idx1 < 0 \<or> idx1 \<ge> vdim ptr then Ret (1, 0, type) (error ERR_SUBSCR s)
           else if basetype ptr = TYPE_WORD then
             (if address1 then Ret (0, vword ptr + sizeof_int * idx1, type) s
              else case peek (vars s) sizeof_int (vword ptr + sizeof_int * idx1) of
                     None \<Rightarrow> Undefined
                   | Some x \<Rightarrow> Ret (0, x, type) s)
           else
             (if address1 then Ret (0, vword ptr + idx1, type) s
              else case peek (vars s) 1 (vword ptr + idx1) of
                     None \<Rightarrow> Undefined
                   | Some x \<Rightarrow> Ret (0, x, type) s)))"

subsection \<open>if, else, endif\<close>

text \<open>\<^verbatim>\<open>doif(unsigned char arg)\<close>: the caller's \<^verbatim>\<open>int\<close> is cut to a byte by the call.\<close>

definition doif :: "int \<Rightarrow> state \<Rightarrow> unit result" where
  "doif arg s =
    onret (push_return IFFRAME s) (\<lambda>_ s1.
      if compile s1 then
        (let s2 = emit VM_NOT s1 in
         onret (push_return (rtPC s2 + 1) s2) (\<lambda>_ s3.
           push_return 0 (emit_imm VM_BRNCHIMM 0xffff s3)))
      else
        onret (if skipFlag s1 then push_return 0 s1
               else if to_byte arg = 0 then push_return 1 (s1\<lparr>skipFlag := True\<rparr>)
               else push_return 2 s1)
          (\<lambda>_ s2. push_return 0 s2))"

definition doelse :: "state \<Rightarrow> nat result" where
  "doelse s =
    (case rs_at s 3 of
       None \<Rightarrow> Undefined
     | Some tag \<Rightarrow>
        if tag \<noteq> IFFRAME then Ret RET_ERROR (error ERR_NOIF s)
        else if compile s then
          (let s1 = s\<lparr>return_stack := (return_stack s)[returnSP s + 1 := rtPC s + 1]\<rparr>;
               s2 = emit_imm VM_JMPIMM 0xffff s1
           in case emit_fixup (return_stack s2 ! (returnSP s2 + 2)) (rtPC s2) s2 of
                None \<Rightarrow> Undefined
              | Some s3 \<Rightarrow>
                  Ret RET_SUCCESS
                    (s3\<lparr>return_stack := (return_stack s3)[returnSP s3 + 2 := 0]\<rparr>))
        else if return_stack s ! (returnSP s + 2) = 2 then Ret RET_SUCCESS (s\<lparr>skipFlag := True\<rparr>)
        else if return_stack s ! (returnSP s + 2) = 1 then Ret RET_SUCCESS (s\<lparr>skipFlag := False\<rparr>)
        else Ret RET_SUCCESS s)"

text \<open>An optional fixup: \<^verbatim>\<open>if (a) emit_fixup(a, rtPC);\<close>.\<close>

definition fixup_if :: "int \<Rightarrow> state \<Rightarrow> state option" where
  "fixup_if a s = (if a \<noteq> 0 then emit_fixup a (rtPC s) s else Some s)"

definition doendif :: "state \<Rightarrow> nat result" where
  "doendif s =
    (case rs_at s 3 of
       None \<Rightarrow> Undefined
     | Some tag \<Rightarrow>
        if tag \<noteq> IFFRAME then Ret RET_ERROR (error ERR_NOIF s)
        else
          (case (if compile s
                 then (case fixup_if (return_stack s ! (returnSP s + 2)) s of
                         None \<Rightarrow> None
                       | Some s1 \<Rightarrow> fixup_if (return_stack s1 ! (returnSP s1 + 1)) s1)
                 else if return_stack s ! (returnSP s + 2) \<noteq> 0 then Some (s\<lparr>skipFlag := False\<rparr>)
                 else Some s) of
             None \<Rightarrow> Undefined
           | Some s2 \<Rightarrow> onret (pop_returns 3 s2) (\<lambda>_ s3. Ret RET_SUCCESS s3)))"

subsection \<open>endfor\<close>

definition doendfor :: "state \<Rightarrow> nat result" where
  "doendfor s =
    (case rs_at s 5 of
       None \<Rightarrow> Undefined
     | Some tag \<Rightarrow>
        if tag \<noteq> FORFRAME_W \<and> tag \<noteq> FORFRAME_B then Ret RET_ERROR (error ERR_NOFOR s)
        else
          let type = (if tag = FORFRAME_W then TYPE_WORD else TYPE_BYTE);
              r1 = return_stack s ! (returnSP s + 1);
              r2 = return_stack s ! (returnSP s + 2);
              r3 = return_stack s ! (returnSP s + 3);
              r4 = return_stack s ! (returnSP s + 4)
          in
          if compile s then
            (let s1 = emit VM_PSHWORD (emit VM_DUP (emit VM_POPWORD s));
                 s2 = (if r4 \<noteq> 0
                       then emit_imm (if type = TYPE_WORD then VM_LDRWORDIMM else VM_LDRBYTEIMM) r2 s1
                       else emit_imm (if type = TYPE_WORD then VM_LDAWORDIMM else VM_LDABYTEIMM) r2 s1);
                 s3 = emit VM_DUP (emit VM_INC s2);
                 s4 = (if r4 \<noteq> 0
                       then emit_imm (if type = TYPE_WORD then VM_STRWORDIMM else VM_STRBYTEIMM) r2 s3
                       else emit_imm (if type = TYPE_WORD then VM_STAWORDIMM else VM_STABYTEIMM) r2 s3);
                 s5 = emit_imm VM_BRNCHIMM r3 (emit VM_GTE s4);
                 s6 = emit VM_DROP (emit VM_POPWORD s5)
             in onret (pop_returns 5 s6) (\<lambda>_ s7. Ret RET_SUCCESS s7))
          else
            (let sz = (if type = TYPE_WORD then sizeof_int else 1) in
             case peek (vars s) sz r1 of
               None \<Rightarrow> Undefined
             | Some val \<Rightarrow>
                 if val < r2 then
                   (case poke (vars s) sz r1 (if type = TYPE_WORD then val + 1 else to_byte (val + 1)) of
                      None \<Rightarrow> Undefined
                    | Some vs \<Rightarrow>
                        onret (backtotop r4 r3 (s\<lparr>vars := vs\<rparr>)) (\<lambda>_ s1. Ret RET_SUCCESS s1))
                 else onret (pop_returns 5 s) (\<lambda>_ s1. Ret RET_SUCCESS s1)))"

subsection \<open>while, endwhile\<close>

definition dowhile :: "int \<Rightarrow> int \<Rightarrow> state \<Rightarrow> unit result" where
  "dowhile startTxtPtr arg s =
    onret (push_return WHILEFRAME s) (\<lambda>_ s1.
      if compile s1 then
        onret (push_return (rtPCBeforeEval s1) s1) (\<lambda>_ s2.
          let s3 = emit VM_NOT s2 in
          onret (push_return (rtPC s3 + 1) s3) (\<lambda>_ s4.
            push_return 0 (emit_imm VM_BRNCHIMM 0xffff s4)))
      else
        onret (if skipFlag s1 then push_return 0 s1
               else if to_byte arg = 0 then push_return 1 (s1\<lparr>skipFlag := True\<rparr>)
               else push_return 2 s1)
          (\<lambda>_ s2. onret (push_return (counter s2) s2) (\<lambda>_ s3. push_return startTxtPtr s3)))"

definition doendwhile :: "state \<Rightarrow> nat result" where
  "doendwhile s =
    (case rs_at s 4 of
       None \<Rightarrow> Undefined
     | Some tag \<Rightarrow>
        if tag \<noteq> WHILEFRAME then Ret RET_ERROR (error ERR_NOWHILE s)
        else
          let r1 = return_stack s ! (returnSP s + 1);
              r2 = return_stack s ! (returnSP s + 2);
              r3 = return_stack s ! (returnSP s + 3)
          in
          onret
            (if compile s then
               (let s1 = emit_imm VM_JMPIMM r3 s in
                case emit_fixup r2 (rtPC s1) s1 of
                  None \<Rightarrow> Undefined
                | Some s2 \<Rightarrow> Ret () s2)
             else if r3 = 0 then Ret () s
             else if r3 = 1 then Ret () (s\<lparr>skipFlag := False\<rparr>)
             else if r3 = 2 then backtotop r2 r1 s
             else Exit 99 s)
            (\<lambda>_ s3. onret (pop_returns 4 s3) (\<lambda>_ s4. Ret RET_SUCCESS s4)))"

subsection \<open>return\<close>

text \<open>The search loop of \<^verbatim>\<open>doreturn\<close>: the first \<^verbatim>\<open>p\<close> from the given one up to
  \<^verbatim>\<open>RETSTACKSZ - 1\<close> with \<^verbatim>\<open>return_stack[p] == CALLFRAME\<close>; the first argument is the
  number of slots still to visit.\<close>

fun find_callframe :: "nat \<Rightarrow> nat \<Rightarrow> int list \<Rightarrow> nat option" where
  "find_callframe 0 p rs = None"
| "find_callframe (Suc n) p rs =
    (if rs ! p = CALLFRAME then Some p else find_callframe n (Suc p) rs)"

definition doreturn :: "int \<Rightarrow> state \<Rightarrow> nat result" where
  "doreturn retvalue s =
    (if compile s then Ret RET_SUCCESS (emit VM_RTS (emit VM_FPTOSP s))
     else
       case find_callframe (RETSTACKSZ - (returnSP s + 1)) (returnSP s + 1) (return_stack s) of
         None \<Rightarrow> Ret RET_ERROR (error ERR_STACK s)
       | Some p \<Rightarrow>
           let s1 = s\<lparr>returnSP := p, retregister := retvalue\<rparr> in
           onret (vars_deletecallframe s1) (\<lambda>_ s2.
             if p < 2 then Undefined
             else onret (backtotop (return_stack s2 ! (p - 1)) (return_stack s2 ! (p - 2)) s2)
                    (\<lambda>_ s3. Ret RET_SUCCESS s3)))"

subsection \<open>The expression parser\<close>

text \<open>\<^verbatim>\<open>P\<close>, \<^verbatim>\<open>E\<close>, \<^verbatim>\<open>eval\<close>, \<^verbatim>\<open>subscript\<close>, \<^verbatim>\<open>createintvar\<close>, \<^verbatim>\<open>docall\<close>, \<^verbatim>\<open>assignorcreate\<close>,
  \<^verbatim>\<open>parseline\<close> and \<^verbatim>\<open>run\<close> call one another. Each is written as a body that takes the
  interpreter for its recursive calls as the argument \<open>rec\<close>; the function \<open>interp\<close>
  below ties the knot with a fuel that goes down by one at every call through \<open>rec\<close>.
  The calls that go through \<open>rec\<close> are: \<^verbatim>\<open>P()\<close>, one more round of the loop of \<^verbatim>\<open>E()\<close>, one
  more round of the loop of \<^verbatim>\<open>parseline()\<close>, \<^verbatim>\<open>run()\<close> and one more round of its loop. Each
  returns a status and one \<^verbatim>\<open>int\<close> (the out-parameter, 0 when there is none).\<close>

datatype task = T_P | T_E_loop | T_parseline | T_run bool | T_run_loop nat

type_synonym interp_t = "task \<Rightarrow> state \<Rightarrow> (nat \<times> int) result"

text \<open>The second loop of \<^verbatim>\<open>E()\<close>. Every round pops an operator: at most \<^verbatim>\<open>STACKSZ\<close> rounds.\<close>

primrec E_drain :: "nat \<Rightarrow> state \<Rightarrow> (nat \<times> int) result" where
  "E_drain 0 s = OutOfFuel"
| "E_drain (Suc n) s =
    (case top_operator_stack s of
       None \<Rightarrow> Undefined
     | Some tp \<Rightarrow>
        if tp \<noteq> SENTINEL
        then onret (pop_operator s) (\<lambda>st s1. if st \<noteq> 0 then Ret (1, 0) s1 else E_drain n s1)
        else Ret (0, 0) s)"

definition E_loop :: "interp_t \<Rightarrow> state \<Rightarrow> (nat \<times> int) result" where
  "E_loop rec s =
    (let op = binary s in
     if op \<noteq> ILLEGAL then
       onret (push_operator op s) (\<lambda>st s1.
         if st \<noteq> 0 then Ret (1, 0) s1
         else
           onret (rec T_P (advance (if IS1CHBINARY op then 1 else 2) s1)) (\<lambda>(st2, _) s2.
             if st2 \<noteq> 0 then Ret (1, 0) s2 else rec T_E_loop s2))
     else E_drain (Suc STACKSZ) s)"

definition E :: "interp_t \<Rightarrow> state \<Rightarrow> (nat \<times> int) result" where
  "E rec s =
    onret (rec T_P s) (\<lambda>(st, _) s1. if st \<noteq> 0 then Ret (1, 0) s1 else rec T_E_loop s1)"

definition eval :: "interp_t \<Rightarrow> bool \<Rightarrow> state \<Rightarrow> (nat \<times> int) result" where
  "eval rec checkNoMore s0 =
    (let s = eatspace s0 in
     if cur s = NUL then Ret (1, 0) (error ERR_EXPR s)
     else
       onret (E rec s) (\<lambda>(st, _) s1.
         if st \<noteq> 0 then Ret (1, 0) s1
         else if checkNoMore \<and> cur s1 \<noteq> CHR '';'' \<and> cur s1 \<noteq> NUL
           then Ret (1, 0) (print (rest s1) (printchar CHR '' '' (error ERR_EXTRA s1)))
         else onret (pop_operand_stack s1) (\<lambda>val s2. Ret (0, val) s2)))"

definition subscript :: "interp_t \<Rightarrow> state \<Rightarrow> (nat \<times> int) result" where
  "subscript rec s =
    onret (push_operator_stack SENTINEL s) (\<lambda>_ s1.
      case expect CHR ''['' s1 of
        (st, s2) \<Rightarrow>
          if st \<noteq> 0 then Ret (1, 0) s2
          else
            onret (eval rec False s2) (\<lambda>(st3, idx) s3.
              if st3 \<noteq> 0 then Ret (1, 0) s3
              else case expect CHR '']'' s3 of
                     (st4, s4) \<Rightarrow>
                       if st4 \<noteq> 0 then Ret (1, 0) s4
                       else onret (pop_operator_stack s4) (\<lambda>_ s5. Ret (0, idx) s5)))"

subsection \<open>Creating a variable\<close>

text \<open>The string initialiser loop of \<^verbatim>\<open>createintvar\<close>: \<open>n\<close> rounds, each takes the next
  character (0 at the closing quote, which stays).\<close>

primrec civ_strg :: "nat \<Rightarrow> state \<Rightarrow> int list \<times> state" where
  "civ_strg 0 s = ([], s)"
| "civ_strg (Suc n) s =
    (if cur s = CHR 0x22 then (case civ_strg n s of (vs, s1) \<Rightarrow> (0 # vs, s1))
     else (case civ_strg n (advance 1 s) of (vs, s1) \<Rightarrow> (int (of_char (cur s)) # vs, s1)))"

text \<open>The list initialiser loop: \<open>n\<close> rounds, each evaluates the next expression (0 once the
  closing brace is reached). The status is 1 when an expression fails.\<close>

primrec civ_list :: "interp_t \<Rightarrow> nat \<Rightarrow> state \<Rightarrow> (nat \<times> int list) result" where
  "civ_list rec 0 s = Ret (0, []) s"
| "civ_list rec (Suc n) s =
    (if cur s = CHR ''}'' then onret (civ_list rec n s) (\<lambda>(st, vs) s1. Ret (st, 0 # vs) s1)
     else
       onret (eval rec False s) (\<lambda>(st, val) s1.
         if st \<noteq> 0 then Ret (1, []) s1
         else
           let s2 = eatspace s1;
               s3 = eatspace (if cur s2 = CHR '','' then advance 1 s2 else s2)
           in onret (civ_list rec n s3) (\<lambda>(st4, vs) s4. Ret (st4, val # vs) s4)))"

definition typebyte :: "bool \<Rightarrow> nat \<Rightarrow> nat \<Rightarrow> nat" where
  "typebyte isconst isarray type = ((if isconst then 32 else 0) OR (isarray * 16) OR type)"

text \<open>\<^verbatim>\<open>createintvar\<close>, interpreting. \<open>arrinitmode\<close> is not initialised when the text shows
  neither a quote nor a brace: \<open>Undefined\<close>. The last element of a string-initialised
  array is not written.\<close>

definition createintvar ::
    "interp_t \<Rightarrow> string \<Rightarrow> nat \<Rightarrow> nat \<Rightarrow> int \<Rightarrow> int \<Rightarrow> int \<Rightarrow> state \<Rightarrow> (nat \<times> int) result" where
  "createintvar rec name type0 isarray sz val bodyptr s =
    (case findintvar name True s of
       (Some _, _) \<Rightarrow> Ret (1, 0) (error ERR_REDEF s)
     | (None, _) \<Rightarrow>
        if sz < 1 then Ret (1, 0) (error ERR_DIM s)
        else
          let isconst = (type0 = TYPE_CONST);
              type = (if isconst then TYPE_WORD else type0);
              tb = typebyte isconst isarray type
          in
          if isarray = 0 then
            (if compile s then Unmodelled
             else if type = TYPE_WORD then
               onret (alloc1 (sizeof_var_t + sizeof_int) s) (\<lambda>a s1.
                 Ret (0, 0) (append_var \<lparr>vname = take VARNUMCHARS name, vtype = tb, vaddr = a,
                                          vword = val, vdim = 0, vbody = []\<rparr> s1))
             else
               onret (alloc1 (sizeof_var_t + 1) s) (\<lambda>a s1.
                 Ret (0, 0) (append_var \<lparr>vname = take VARNUMCHARS name, vtype = tb, vaddr = a,
                                          vword = to_byte val, vdim = 0, vbody = []\<rparr> s1)))
          else if bodyptr \<noteq> 0 then
            onret (alloc1 (sizeof_var_t + 2 * sizeof_int) s) (\<lambda>a s1.
              Ret (0, 0) (append_var \<lparr>vname = take VARNUMCHARS name, vtype = tb, vaddr = a,
                                       vword = bodyptr, vdim = sz, vbody = []\<rparr> s1))
          else if cur s \<noteq> CHR 0x22 \<and> cur s \<noteq> CHR ''{'' then Undefined
          else if compile s then Unmodelled
          else
            let strg = (cur s = CHR 0x22); s1 = advance 1 s in
            onret (alloc1 (if type = TYPE_WORD then sizeof_var_t + (sz + 2) * sizeof_int
                           else sizeof_var_t + 2 * sizeof_int + sz) s1) (\<lambda>a s2.
              let conv = (\<lambda>x. Some (if type = TYPE_WORD then x else to_byte x));
                  entry = (\<lambda>els. \<lparr>vname = take VARNUMCHARS name, vtype = tb, vaddr = a,
                                   vword = a + sizeof_var_t + 2 * sizeof_int, vdim = sz,
                                   vbody = els\<rparr>)
              in
              if strg then
                (case civ_strg (nat (sz - 1)) s2 of
                   (vs, s3) \<Rightarrow>
                     if cur s3 = CHR 0x22
                     then Ret (0, 0) (append_var (entry (map conv vs @ [None])) (advance 1 s3))
                     else Ret (1, 0) (error ERR_TOOLONG s3))
              else
                onret (civ_list rec (nat sz) s2) (\<lambda>(st, vs) s3.
                  if st \<noteq> 0 then Ret (1, 0) s3
                  else if cur s3 = CHR ''}''
                    then Ret (0, 0) (append_var (entry (map conv vs)) (advance 1 s3))
                  else Ret (1, 0) (error ERR_TOOLONG s3))))"

subsection \<open>Calling a subroutine\<close>

fun compareUntil :: "string \<Rightarrow> string \<Rightarrow> char \<Rightarrow> nat" where
  "compareUntil [] bs term = (if bs \<noteq> [] \<and> term = NUL then 0 else 1)"
| "compareUntil (a # as) [] term = (if a = term \<or> a = CHR '' '' then 0 else 1)"
| "compareUntil (a # as) (b # bs) term =
    (if a = b then compareUntil as bs term
     else if a = term \<or> a = CHR '' '' then 0 else 1)"

text \<open>The line loop of \<^verbatim>\<open>docall\<close>: the index of the first line that reads \<^verbatim>\<open>sub\<close> and the
  wanted name, and the offset of the name in it.\<close>

fun docall_scan :: "string \<Rightarrow> nat \<Rightarrow> string list \<Rightarrow> (nat \<times> nat) option" where
  "docall_scan name li [] = None"
| "docall_scan name li (ln # lns) =
    (let p0 = spaces ln in
     if take 4 (drop p0 ln) = ''sub '' \<and>
        compareUntil (drop (p0 + 4 + spaces (drop (p0 + 4) ln)) ln) name CHR ''('' = 0
     then Some (li, p0 + 4 + spaces (drop (p0 + 4) ln))
     else docall_scan name (Suc li) lns)"

fun find_char :: "char \<Rightarrow> string \<Rightarrow> nat option" where
  "find_char c [] = None"
| "find_char c (x # xs) = (if x = c then Some 0 else map_option Suc (find_char c xs))"

text \<open>One actual parameter of a call, for the formal \<open>name\<close> of type \<open>type\<close>: the status
  and the value of the local \<^verbatim>\<open>local\<close> afterwards (1 for \<open>True\<close>). The compiler generates the
  code that pushes the value, or the address of the array, to the call stack.\<close>

definition docall_actual ::
    "interp_t \<Rightarrow> nat \<Rightarrow> string \<Rightarrow> bool \<Rightarrow> int \<Rightarrow> nat option \<Rightarrow> nat option \<Rightarrow> bool
      \<Rightarrow> state \<Rightarrow> (nat \<times> int) result" where
  "docall_actual rec type name arraymode origcounter oldvarslocal newvarslocal local s =
    (if cur s = NUL \<or> cur s = CHR '')''
     then Ret (1, 0) (error ERR_ARG (s\<lparr>counter := origcounter\<rparr>))
     else if \<not> arraymode then
       onret (eval rec False (if compile s then s else s\<lparr>varslocal := oldvarslocal\<rparr>))
         (\<lambda>(st, arg) s1.
         if st \<noteq> 0 then Ret (1, 0) (error ERR_ARG (s1\<lparr>counter := origcounter\<rparr>))
         else if compile s1 then
           Ret (0, of_bool_int local)
             (emit (if type = TYPE_WORD then VM_PSHWORD else VM_PSHBYTE) s1)
         else
           onret (createintvar rec name type 0 1 arg 0 (s1\<lparr>varslocal := newvarslocal\<rparr>))
             (\<lambda>_ s2. Ret (0, of_bool_int local) s2))
     else if compile s then
       onret (eval rec False s) (\<lambda>(st, arg) s1.
         if st \<noteq> 0 then Ret (1, 0) (error ERR_ARG (s1\<lparr>counter := origcounter\<rparr>))
         else Ret (0, of_bool_int local) (emit VM_PSHWORD s1))
     else
       let ident = takeWhile isalnumch (rest s);
           s1 = (advance (length ident) s)\<lparr>varslocal := oldvarslocal\<rparr>
       in case findintvar (take VARNUMCHARS ident) local s1 of
            (None, _) \<Rightarrow> Ret (1, 0) (error ERR_VAR (s1\<lparr>counter := origcounter\<rparr>))
          | (Some i, local1) \<Rightarrow>
              let array = vars s1 ! i; j = (vtype array AND 0xf0) div 16 in
              if vtype array AND 0x0f \<noteq> type \<or> j = 0
              then Ret (1, 0) (error ERR_TYPE (s1\<lparr>counter := origcounter\<rparr>))
              else
                onret (createintvar rec name type j (vdim array) 0 (vword array)
                         (s1\<lparr>varslocal := newvarslocal\<rparr>))
                  (\<lambda>_ s2. Ret (0, of_bool_int local1) s2))"

text \<open>The loop over the formal parameters in the \<^verbatim>\<open>sub\<close> line \<open>pl\<close>, from offset \<open>p\<close>.
  Every round moves \<open>p\<close> on by at least five characters, so the length of the line
  bounds the number of rounds. The value returned with the status is \<^verbatim>\<open>argbytes\<close>, an
  \<^verbatim>\<open>unsigned char\<close> that only the compiler counts up.\<close>

primrec docall_formals ::
    "interp_t \<Rightarrow> nat \<Rightarrow> string \<Rightarrow> nat \<Rightarrow> int \<Rightarrow> nat option \<Rightarrow> nat option \<Rightarrow> bool
      \<Rightarrow> nat \<Rightarrow> state \<Rightarrow> (nat \<times> int) result" where
  "docall_formals rec 0 pl p origcounter oldvarslocal newvarslocal local argbytes s = OutOfFuel"
| "docall_formals rec (Suc n) pl p origcounter oldvarslocal newvarslocal local argbytes s =
    (let p1 = p + spaces (drop p pl) in
     if chr_at pl p1 = CHR '')'' then Ret (0, int argbytes) s
     else if take 5 (drop p1 pl) \<noteq> ''word '' \<and> take 5 (drop p1 pl) \<noteq> ''byte ''
       then Ret (1, 0) (error ERR_ARG s)
     else
       let type = (if take 5 (drop p1 pl) = ''word '' then TYPE_WORD else TYPE_BYTE);
           p2 = p1 + 5 + spaces (drop (p1 + 5) pl);
           ident = takeWhile isalnumch (drop p2 pl);
           p3 = p2 + length ident
       in
       if chr_at pl p3 = CHR ''['' \<and> chr_at pl (p3 + 1) \<noteq> CHR '']''
         then Ret (1, 0) (error ERR_ARG s)
       else
         let arraymode = (chr_at pl p3 = CHR ''['');
             p4 = (if arraymode then p3 + 2 else p3)
         in
         onret (docall_actual rec type (take VARNUMCHARS ident) arraymode origcounter
                  oldvarslocal newvarslocal local s) (\<lambda>(st, local1) s1.
           if st \<noteq> 0 then Ret (1, 0) s1
           else
             let s2 = eatspace s1;
                 s3 = eatspace (if cur s2 = CHR '','' then advance 1 s2 else s2);
                 p5 = p4 + spaces (drop p4 pl);
                 p6 = (if chr_at pl p5 = CHR '','' then p5 + 1 else p5);
                 argbytes1 = (if compile s1
                              then (argbytes + (if arraymode \<or> type = TYPE_WORD then 2 else 1))
                                     mod 256
                              else argbytes)
             in docall_formals rec n pl p6 origcounter oldvarslocal newvarslocal
                  (local1 \<noteq> 0) argbytes1 s3))"

text \<open>\<^verbatim>\<open>docall\<close>. A \<^verbatim>\<open>sub\<close> line without an opening parenthesis lets the C code scan
  behind the end of the line, and, interpreting, a \<^verbatim>\<open>sub\<close> on the last line of the program
  makes it read through \<^verbatim>\<open>NULL\<close>: both \<open>Undefined\<close>. The compiler takes the name of the
  pending call from \<^verbatim>\<open>readbuf\<close> before the arguments are evaluated; \<^verbatim>\<open>alloc2top\<close> is
  \<^verbatim>\<open>malloc\<close> on this platform and is taken to succeed.\<close>

definition docall :: "interp_t \<Rightarrow> state \<Rightarrow> (nat \<times> int) result" where
  "docall rec s =
    (let origcounter = counter s; callname = take SUBRNUMCHARS (readbuf s) in
     case docall_scan (readbuf s) 0 (program s) of
       None \<Rightarrow>
         Ret (1, 0) (error ERR_NOSUB
           (s\<lparr>counter := origcounter,
              skipFlag := (if program s = [] then skipFlag s else False)\<rparr>))
     | Some (li, pname) \<Rightarrow>
         let pl = program s ! li;
             s1 = s\<lparr>counter := (if compile s then counter s else int li), skipFlag := False\<rparr>
         in
         case find_char CHR ''('' (drop pname pl) of
           None \<Rightarrow> Undefined
         | Some k \<Rightarrow>
             (case expect CHR ''('' (eatspace s1) of
                (st, s2) \<Rightarrow>
                  if st \<noteq> 0 then Ret (1, 0) (s2\<lparr>counter := origcounter\<rparr>)
                  else if compile s2 then
                    onret (docall_formals rec (Suc (length pl)) pl (pname + k + 1) origcounter
                             (varslocal s2) (varslocal s2) False 0 s2) (\<lambda>(st6, argbytes) s6.
                      if st6 \<noteq> 0 then Ret (1, 0) s6
                      else
                        case expect CHR '')'' (eatspace s6) of
                          (st7, s7) \<Rightarrow>
                            if st7 \<noteq> 0 then Ret (1, 0) (s7\<lparr>counter := origcounter\<rparr>)
                            else
                              let s8 = emit_imm VM_JSRIMM 0xffff s7;
                                  s9 = s8\<lparr>calls := calls s8 @
                                          [\<lparr>sname = callname, saddr = rtPC s8 - 2\<rparr>]\<rparr>
                              in Ret (0, 0)
                                   (if argbytes \<noteq> 0 then emit VM_DISCARD (emitldi argbytes s9)
                                    else s9))
                  else
                    let oldvarslocal = varslocal s2 in
                    onret (push_return CALLFRAME s2) (\<lambda>_ s3.
                    onret (push_return origcounter s3) (\<lambda>_ s4.
                    onret (vars_markcallframe s4) (\<lambda>_ s5.
                    onret (docall_formals rec (Suc (length pl)) pl (pname + k + 1) origcounter
                             oldvarslocal (varslocal s5) False 0 s5) (\<lambda>(st6, _) s6.
                      if st6 \<noteq> 0 then Ret (1, 0) s6
                      else
                        case expect CHR '')'' (eatspace s6) of
                          (st7, s7) \<Rightarrow>
                            if st7 \<noteq> 0 then Ret (1, 0) (s7\<lparr>counter := origcounter\<rparr>)
                            else
                              onret (push_return (int (txtPtr s7)) s7) (\<lambda>_ s8.
                                if Suc li < length (program s8)
                                then Ret (0, 0)
                                       (s8\<lparr>current := Some (Suc li), counter := counter s8 + 1,
                                           txtBuf := program s8 ! Suc li, txtPtr := 0\<rparr>)
                                else Undefined)))))))"

text \<open>\<^verbatim>\<open>dosubr\<close>: the loop over the formal parameters of the \<^verbatim>\<open>sub\<close> line that is being
  compiled. Each parameter moves the offsets of the parameters before it by its size and
  gets an entry of its own, at offset 4 (behind the return address and the frame pointer);
  the second word of an array parameter is \<open>- 1\<close>. Every round reads at least five
  characters.\<close>

primrec dosubr_formals :: "nat \<Rightarrow> state \<Rightarrow> nat result" where
  "dosubr_formals 0 s = OutOfFuel"
| "dosubr_formals (Suc n) s0 =
    (let s = eatspace s0 in
     if cur s = CHR '')'' then Ret RET_SUCCESS s
     else if take 5 (rest s) \<noteq> ''word '' \<and> take 5 (rest s) \<noteq> ''byte ''
       then Ret RET_ERROR (error ERR_ARG s)
     else
       let type = (if take 5 (rest s) = ''word '' then TYPE_WORD else TYPE_BYTE);
           s1 = eatspace (advance 5 s);
           ident = takeWhile isalnumch (rest s1);
           s2 = advance (length ident) s1
       in
       if cur s2 = CHR ''['' \<and> cur (advance 1 s2) \<noteq> CHR '']''
         then Ret RET_ERROR (error ERR_ARG (advance 1 s2))
       else
         let arraymode = (cur s2 = CHR ''['');
             s3 = (if arraymode then advance 2 s2 else s2);
             bump = (\<lambda>v. if chr_at (vname v) 0 \<noteq> CHR ''-''
                         then v\<lparr>vword := vword v + (if arraymode \<or> type = TYPE_WORD then 2 else 1)\<rparr>
                         else v);
             s4 = (case varslocal s3 of
                     None \<Rightarrow> s3
                   | Some l \<Rightarrow> s3\<lparr>vars := take l (vars s3) @ map bump (drop l (vars s3))\<rparr>)
         in
         onret (alloc1 (if arraymode then sizeof_var_t + 2 * sizeof_int
                        else sizeof_var_t + sizeof_int) s4) (\<lambda>a s5.
           let s6 = append_var
                      \<lparr>vname = take VARNUMCHARS ident,
                        vtype = (if arraymode then 16 else 0) OR type, vaddr = a, vword = 4,
                        vdim = (if arraymode then - 1 else 0), vbody = []\<rparr> s5;
               s7 = eatspace s6
           in dosubr_formals n (if cur s7 = CHR '','' then advance 1 s7 else s7)))"

text \<open>\<^verbatim>\<open>dosubr\<close>, with the name of the subroutine in \<^verbatim>\<open>readbuf\<close>. Running into a \<^verbatim>\<open>sub\<close>
  line is an error of the interpreter; the compiler enters the subroutine with the current
  address into the definition list.\<close>

definition dosubr :: "state \<Rightarrow> nat result" where
  "dosubr s =
    (if compile s then
       let s1 = print '']'' (print (readbuf s) (print ''\<newline>['' (s\<lparr>compilingsub := True\<rparr>)));
           s2 = s1\<lparr>subs := subs s1 @
                   [\<lparr>sname = take SUBRNUMCHARS (readbuf s1), saddr = rtPC s1\<rparr>]\<rparr>
       in
       onret (vars_markcallframe s2) (\<lambda>_ s3.
         let s4 = (emit VM_SPTOFP s3)\<lparr>rtFP := rtSP s3\<rparr> in
         case expect CHR ''('' s4 of
           (st, s5) \<Rightarrow>
             if st \<noteq> 0 then Ret RET_ERROR s5
             else
               onret (dosubr_formals (Suc (length (txtBuf s5))) s5) (\<lambda>st6 s6.
                 if st6 \<noteq> 0 then Ret RET_ERROR s6
                 else case expect CHR '')'' s6 of (st7, s7) \<Rightarrow> Ret st7 s7))
     else Ret RET_ERROR (error ERR_RUNSUB s))"

text \<open>\<^verbatim>\<open>P()\<close>. Where \<^verbatim>\<open>P\<close> would generate code for a variable or a call the outcome is
  \<open>Unmodelled\<close>.\<close>

definition P_var :: "interp_t \<Rightarrow> state \<Rightarrow> (nat \<times> int) result" where
  "P_var rec s0 =
    (let addressmode = (cur s0 = CHR ''&'');
         s = (if addressmode then advance 1 s0 else s0)
     in
     if addressmode \<and> \<not> isalphach (cur s) then Ret (1, 0) (error ERR_VAR s)
     else
       let ident = takeWhile isalnumch (rest s);
           key = take VARNUMCHARS ident;
           s1 = (advance (length ident) s)\<lparr>readbuf := ident\<rparr>
       in
       if cur s1 = CHR ''('' then
         (if onlyconstants s1 then Ret (1, 0) (error ERR_CONST s1)
          else if addressmode then Ret (1, 0) (error ERR_VAR s1)
          else if compile s1 then Unmodelled
          else
            onret (push_operator_stack SENTINEL s1) (\<lambda>_ s2.
              let oldcurrent = current s2; oldcounter = counter s2 in
              onret (push_return CALLFRAME s2) (\<lambda>_ s3.
              onret (push_return (- 2) s3) (\<lambda>_ s4.
              onret (push_return (- 1) s4) (\<lambda>_ s5.
              onret (docall rec s5) (\<lambda>(st, _) s6.
                if st \<noteq> 0 then Ret (1, 0) s6
                else
                  onret (rec (T_run True) s6) (\<lambda>_ s7.
                  onret (pop_returns 3 (s7\<lparr>current := oldcurrent, counter := oldcounter\<rparr>)) (\<lambda>_ s8.
                  onret (pop_operator_stack s8) (\<lambda>_ s9.
                  onret (push_operand_stack (retregister s9) s9) (\<lambda>_ s10.
                    Ret (0, 0) (eatspace s10)))))))))))
       else
         onret (if cur s1 = CHR ''[''
                then onret (subscript rec s1) (\<lambda>(st, idx) s2.
                       if st = 1 then Ret (1, 0) (error ERR_SUBSCR s2) else Ret (0, idx) s2)
                else Ret (0 :: nat, - 1 :: int) s1) (\<lambda>(st, idx) s2.
           if st \<noteq> 0 then Ret (1, 0) s2
           else if compile s2 then Unmodelled
           else
             onret (getintvar key idx addressmode s2) (\<lambda>(st3, arg, type) s3.
               if st3 \<noteq> 0 then Ret (1, 0) s3
               else if onlyconstants s3 \<and> type AND 0x20 = 0 then Ret (1, 0) (error ERR_CONST s3)
               else onret (push_operand_stack arg s3) (\<lambda>_ s4. Ret (0, 0) (eatspace s4)))))"

definition P :: "interp_t \<Rightarrow> state \<Rightarrow> (nat \<times> int) result" where
  "P rec s0 =
    (let s = eatspace s0 in
     if cur s = NUL then Ret (1, 0) (error ERR_EXPR s)
     else if cur s = CHR ''&'' \<or> isalphach (cur s) then P_var rec s
     else if isdigitch (cur s) then
       onret (parseint s) (\<lambda>(st, arg) s1.
         if st \<noteq> 0 then Ret (1, 0) (error ERR_NUM s1)
         else onret (push_operand_stack arg s1) (\<lambda>_ s2. Ret (0, 0) (eatspace s2)))
     else if cur s = CHR ''$'' then
       onret (parsehexint (advance 1 s)) (\<lambda>(st, arg) s1.
         if st \<noteq> 0 then Ret (1, 0) (error ERR_NUM s1)
         else onret (push_operand_stack arg s1) (\<lambda>_ s2. Ret (0, 0) (eatspace s2)))
     else if cur s = CHR 0x27 then
       (let s1 = advance 1 s; arg = int (of_char (cur s1)); s2 = advance 1 s1 in
        if cur s2 \<noteq> CHR 0x27 then Ret (1, 0) (error ERR_NUM s2)
        else onret (push_operand_stack arg (advance 1 s2)) (\<lambda>_ s3. Ret (0, 0) (eatspace s3)))
     else if cur s = CHR ''('' then
       onret (push_operator_stack SENTINEL (advance 1 s)) (\<lambda>_ s1.
         onret (E rec s1) (\<lambda>(st, _) s2.
           if st \<noteq> 0 then Ret (1, 0) s2
           else case expect CHR '')'' s2 of
                  (st3, s3) \<Rightarrow>
                    if st3 \<noteq> 0 then Ret (1, 0) s3
                    else onret (pop_operator_stack s3) (\<lambda>_ s4. Ret (0, 0) s4)))
     else if unary s \<noteq> ILLEGAL then
       onret (push_operator_stack (unary s) s) (\<lambda>_ s1.
         onret (rec T_P (advance 1 s1)) (\<lambda>(st, _) s2.
           if st \<noteq> 0 then Ret (1, 0) s2 else Ret (0, 0) s2))
     else Ret (1, 0) (printchar (cur s) (printchar CHR '' '' (error ERR_EXTRA s))))"

subsection \<open>Declarations, assignments and the head of a for loop\<close>

abbreviation WORD_MODE :: nat where "WORD_MODE \<equiv> 0"
abbreviation BYTE_MODE :: nat where "BYTE_MODE \<equiv> 1"
abbreviation CONST_MODE :: nat where "CONST_MODE \<equiv> 2"
abbreviation LET_MODE :: nat where "LET_MODE \<equiv> 3"
abbreviation FOR_MODE :: nat where "FOR_MODE \<equiv> 4"

text \<open>The part of \<^verbatim>\<open>assignorcreate\<close> behind \<^verbatim>\<open>if (mode != FOR_MODE) return RET_SUCCESS;\<close>:
  the limit is evaluated and the frame of the loop is pushed.\<close>

definition for_entry :: "interp_t \<Rightarrow> string \<Rightarrow> int \<Rightarrow> state \<Rightarrow> (nat \<times> int) result" where
  "for_entry rec name i s =
    (case expect CHR '':'' s of
       (st, s1) \<Rightarrow>
         if st \<noteq> 0 then Ret (RET_ERROR, 0) s1
         else
           onret (eval rec True s1) (\<lambda>(st2, k) s2.
             if st2 \<noteq> 0 then Ret (RET_ERROR, 0) s2
             else
               let s3 = (if compile s2 then s2\<lparr>compiletimelookup := True\<rparr> else s2) in
               onret (getintvar name i True s3) (\<lambda>(st4, j, type) s4.
                 if st4 \<noteq> 0 then Ret (RET_ERROR, 0) s4
                 else
                   onret (push_return (if type AND 0x0f = TYPE_WORD then FORFRAME_W else FORFRAME_B) s4)
                     (\<lambda>_ s5.
                       if compile s5 then
                         (case findintvar name False s5 of
                            (_, local) \<Rightarrow>
                              onret (push_return (of_bool_int (local \<and> compilingsub s5)) s5) (\<lambda>_ s6.
                                let s7 = emit VM_PSHWORD s6 in
                                onret (push_return (rtPC s7) s7) (\<lambda>_ s8.
                                onret (push_return j s8) (\<lambda>_ s9.
                                onret (push_return 0 s9) (\<lambda>_ s10. Ret (RET_SUCCESS, 0) s10)))))
                       else
                         onret (push_return (counter s5) s5) (\<lambda>_ s6.
                         onret (push_return (int (txtPtr s6)) s6) (\<lambda>_ s7.
                         onret (push_return k s7) (\<lambda>_ s8.
                         onret (push_return j s8) (\<lambda>_ s9. Ret (RET_SUCCESS, 0) s9))))))))"

definition assignorcreate :: "interp_t \<Rightarrow> nat \<Rightarrow> state \<Rightarrow> (nat \<times> int) result" where
  "assignorcreate rec mode s =
    (let oldcompile = compile s in
     if \<not> isalphach (cur s) then Ret (RET_ERROR, 0) (error ERR_VAR s)
     else
       let ident = takeWhile isalnumch (rest s);
           name = take VARNUMCHARS ident;
           s1 = advance (length ident) s;
           isarray = (cur s1 = CHR ''['')
       in
       onret (if isarray then
                (if mode = WORD_MODE \<or> mode = BYTE_MODE then
                   onret (subscript rec (s1\<lparr>onlyconstants := True, compile := False\<rparr>))
                     (\<lambda>(st, i) s2. Ret (st, i) (s2\<lparr>onlyconstants := False, compile := oldcompile\<rparr>))
                 else subscript rec s1)
              else Ret (0 :: nat, 0 :: int) s1) (\<lambda>(st, i) s2.
         if st = 1 then Ret (RET_ERROR, 0) s2
         else
           case expect CHR ''='' (eatspace s2) of
             (st3, s3) \<Rightarrow>
               if st3 \<noteq> 0 then Ret (RET_ERROR, 0) s3
               else
                 let s4 = eatspace s3;
                     s5 = (if mode = CONST_MODE then s4\<lparr>compile := False\<rparr> else s4)
                 in
                 onret (if \<not> isarray \<or> mode = LET_MODE \<or> mode = FOR_MODE
                        then eval rec (mode \<noteq> FOR_MODE) s5
                        else Ret (0 :: nat, 0 :: int) s5) (\<lambda>(st6, j) s6.
                   if st6 \<noteq> 0 then Ret (RET_ERROR, 0) (s6\<lparr>compile := True\<rparr>)
                   else
                     let s7 = s6\<lparr>compile := oldcompile\<rparr> in
                     if mode = WORD_MODE \<or> mode = BYTE_MODE \<or> mode = CONST_MODE then
                       onret (createintvar rec name
                                (if mode = CONST_MODE then TYPE_CONST
                                 else if mode = WORD_MODE then TYPE_WORD else TYPE_BYTE)
                                (if isarray then 1 else 0) (if i = 0 then i + 1 else i) j 0 s7)
                         (\<lambda>(st8, _) s8.
                           if st8 \<noteq> 0 then Ret (RET_ERROR, 0) s8 else Ret (RET_SUCCESS, 0) s8)
                     else
                       let i1 = (if \<not> isarray then - 1 else i) in
                       onret (setintvar name i1 j s7) (\<lambda>st8 s8.
                         if st8 \<noteq> 0 then Ret (RET_ERROR, 0) s8
                         else if mode \<noteq> FOR_MODE then Ret (RET_SUCCESS, 0) s8
                         else for_entry rec name i1 s8))))"

subsection \<open>The linker and the bytecode file\<close>

text \<open>The inner loop of \<^verbatim>\<open>linksubs\<close>: the first definition whose name agrees with the
  call in the first \<^verbatim>\<open>SUBRNUMCHARS\<close> characters.\<close>

fun find_sub :: "string \<Rightarrow> subtabent list \<Rightarrow> subtabent option" where
  "find_sub name [] = None"
| "find_sub name (sub # tl_subs) =
    (if take SUBRNUMCHARS (sname sub) = take SUBRNUMCHARS name then Some sub
     else find_sub name tl_subs)"

text \<open>The outer loop over the pending calls. With an empty definition list the C code
  reads \<^verbatim>\<open>sub->name\<close> through \<^verbatim>\<open>NULL\<close>: \<open>Undefined\<close>. The status tells whether the loop came
  to its end (0) or left at the \<^verbatim>\<open>link\<close> error (1); \<^verbatim>\<open>linksubs\<close> itself returns nothing.\<close>

fun linksubs_loop :: "subtabent list \<Rightarrow> state \<Rightarrow> nat result" where
  "linksubs_loop [] s = Ret 0 s"
| "linksubs_loop (call # cs) s =
    (if subs s = [] then Undefined
     else case find_sub (sname call) (subs s) of
            None \<Rightarrow> Ret 1 (error ERR_LINK s)
          | Some sub \<Rightarrow>
              (case emit_fixup (saddr call) (saddr sub) s of
                 None \<Rightarrow> Undefined
               | Some s1 \<Rightarrow> linksubs_loop cs s1))"

definition linksubs :: "state \<Rightarrow> nat result" where
  "linksubs s = linksubs_loop (calls s) s"

text \<open>\<^verbatim>\<open>writebytecode\<close>, with the \<^verbatim>\<open>openfile(1)\<close> that it calls: the emitted bytes go to the
  file named by \<^verbatim>\<open>filename\<close>. Of the C library, \<^verbatim>\<open>fopen\<close> is taken to succeed, and what
  \<^verbatim>\<open>fwrite\<close> writes is the field \<open>bytefile\<close>.\<close>

definition writebytecode :: "state \<Rightarrow> state" where
  "writebytecode s =
    (let s1 = printchar CHR 0x0A (s\<lparr>readbuf := filename s\<rparr>);
         s2 = printchar CHR '':'' (print (readbuf s1) (print ''Writing '' s1));
         s3 = print ''...\<newline>'' s2
     in s3\<lparr>bytefile := Some (codemem s3)\<rparr>)"

text \<open>The \<^verbatim>\<open>comp\<close> statement before it calls \<^verbatim>\<open>run(0)\<close>, with the name of the file in
  \<^verbatim>\<open>readbuf\<close>, and its end, after \<^verbatim>\<open>run(0)\<close> has compiled the program.\<close>

definition comp_start :: "state \<Rightarrow> state" where
  "comp_start s =
    s\<lparr>filename := take 15 (readbuf s), compile := True, subs := [], calls := [],
      rtSP := RTCALLSTACKTOP s, rtFP := RTCALLSTACKTOP s, rtPC := RTPCSTART s,
      codemem := []\<rparr>"

definition comp_finish :: "state \<Rightarrow> unit result" where
  "comp_finish s =
    (if compile s then
       onret (linksubs (emit VM_END s)) (\<lambda>_ s1. Ret () ((writebytecode s1)\<lparr>compile := False\<rparr>))
     else Ret () s)"

subsection \<open>The statement dispatcher\<close>

abbreviation TOK_COMM :: nat where "TOK_COMM \<equiv> 150"
abbreviation TOK_PRDEC :: nat where "TOK_PRDEC \<equiv> 151"
abbreviation TOK_PRDEC_S :: nat where "TOK_PRDEC_S \<equiv> 152"
abbreviation TOK_PRHEX :: nat where "TOK_PRHEX \<equiv> 153"
abbreviation TOK_PRMSG :: nat where "TOK_PRMSG \<equiv> 154"
abbreviation TOK_PRNL :: nat where "TOK_PRNL \<equiv> 155"
abbreviation TOK_PRSTR :: nat where "TOK_PRSTR \<equiv> 156"
abbreviation TOK_PRCH :: nat where "TOK_PRCH \<equiv> 157"
abbreviation TOK_KBDCH :: nat where "TOK_KBDCH \<equiv> 158"
abbreviation TOK_KBDLN :: nat where "TOK_KBDLN \<equiv> 159"
abbreviation TOK_QUIT :: nat where "TOK_QUIT \<equiv> 160"
abbreviation TOK_CLEAR :: nat where "TOK_CLEAR \<equiv> 161"
abbreviation TOK_VARS :: nat where "TOK_VARS \<equiv> 162"
abbreviation TOK_WORD :: nat where "TOK_WORD \<equiv> 163"
abbreviation TOK_BYTE :: nat where "TOK_BYTE \<equiv> 164"
abbreviation TOK_CONST :: nat where "TOK_CONST \<equiv> 165"
abbreviation TOK_RUN :: nat where "TOK_RUN \<equiv> 166"
abbreviation TOK_COMPILE :: nat where "TOK_COMPILE \<equiv> 167"
abbreviation TOK_NEW :: nat where "TOK_NEW \<equiv> 168"
abbreviation TOK_SUBR :: nat where "TOK_SUBR \<equiv> 169"
abbreviation TOK_ENDSUBR :: nat where "TOK_ENDSUBR \<equiv> 170"
abbreviation TOK_IF :: nat where "TOK_IF \<equiv> 171"
abbreviation TOK_ELSE :: nat where "TOK_ELSE \<equiv> 172"
abbreviation TOK_ENDIF :: nat where "TOK_ENDIF \<equiv> 173"
abbreviation TOK_FREE :: nat where "TOK_FREE \<equiv> 174"
abbreviation TOK_CALL :: nat where "TOK_CALL \<equiv> 175"
abbreviation TOK_RET :: nat where "TOK_RET \<equiv> 176"
abbreviation TOK_FOR :: nat where "TOK_FOR \<equiv> 177"
abbreviation TOK_ENDFOR :: nat where "TOK_ENDFOR \<equiv> 178"
abbreviation TOK_WHILE :: nat where "TOK_WHILE \<equiv> 179"
abbreviation TOK_ENDW :: nat where "TOK_ENDW \<equiv> 180"
abbreviation TOK_END :: nat where "TOK_END \<equiv> 181"
abbreviation TOK_MODE :: nat where "TOK_MODE \<equiv> 182"
abbreviation TOK_POKEWORD :: nat where "TOK_POKEWORD \<equiv> 183"
abbreviation TOK_POKEBYTE :: nat where "TOK_POKEBYTE \<equiv> 184"
abbreviation TOK_LOAD :: nat where "TOK_LOAD \<equiv> 185"
abbreviation TOK_SAVE :: nat where "TOK_SAVE \<equiv> 186"
abbreviation TOK_LIST :: nat where "TOK_LIST \<equiv> 187"
abbreviation TOK_CHANGE :: nat where "TOK_CHANGE \<equiv> 188"
abbreviation TOK_APP :: nat where "TOK_APP \<equiv> 189"
abbreviation TOK_INS :: nat where "TOK_INS \<equiv> 190"
abbreviation TOK_DEL :: nat where "TOK_DEL \<equiv> 191"

datatype stmnttype =
  FULLLINE | NOARGS | ONEARG | TWOARGS | INITIALARG | ONESTRARG | INITIALNAMEARG | CUSTOM

definition stmnttab :: "(string \<times> nat \<times> stmnttype) list" where
  "stmnttab =
    [([CHR 0x27], TOK_COMM, FULLLINE),
     (''pr.dec'', TOK_PRDEC, ONEARG),
     (''pr.dec.s'', TOK_PRDEC_S, ONEARG),
     (''pr.hex'', TOK_PRHEX, ONEARG),
     (''pr.msg'', TOK_PRMSG, ONESTRARG),
     (''pr.nl'', TOK_PRNL, NOARGS),
     (''pr.str'', TOK_PRSTR, ONEARG),
     (''pr.ch'', TOK_PRCH, ONEARG),
     (''kbd.ch'', TOK_KBDCH, ONEARG),
     (''kbd.ln'', TOK_KBDLN, TWOARGS),
     (''quit'', TOK_QUIT, NOARGS),
     (''clear'', TOK_CLEAR, NOARGS),
     (''vars'', TOK_VARS, NOARGS),
     (''word'', TOK_WORD, CUSTOM),
     (''byte'', TOK_BYTE, CUSTOM),
     (''const'', TOK_CONST, CUSTOM),
     (''run'', TOK_RUN, NOARGS),
     (''comp'', TOK_COMPILE, ONESTRARG),
     (''new'', TOK_NEW, NOARGS),
     (''sub'', TOK_SUBR, INITIALNAMEARG),
     (''endsub'', TOK_ENDSUBR, NOARGS),
     (''if'', TOK_IF, ONEARG),
     (''else'', TOK_ELSE, NOARGS),
     (''endif'', TOK_ENDIF, NOARGS),
     (''free'', TOK_FREE, NOARGS),
     (''call'', TOK_CALL, INITIALNAMEARG),
     (''return'', TOK_RET, ONEARG),
     (''for'', TOK_FOR, CUSTOM),
     (''endfor'', TOK_ENDFOR, NOARGS),
     (''while'', TOK_WHILE, ONEARG),
     (''endwhile'', TOK_ENDW, NOARGS),
     (''end'', TOK_END, NOARGS),
     (''mode'', TOK_MODE, ONEARG),
     (''*'', TOK_POKEWORD, INITIALARG),
     (''^'', TOK_POKEBYTE, INITIALARG),
     ('':r'', TOK_LOAD, ONESTRARG),
     ('':w'', TOK_SAVE, ONESTRARG),
     ('':l'', TOK_LIST, CUSTOM),
     ('':c'', TOK_CHANGE, INITIALARG),
     ('':a'', TOK_APP, ONEARG),
     ('':i'', TOK_INS, ONEARG),
     ('':d'', TOK_DEL, INITIALARG)]"

text \<open>\<^verbatim>\<open>matchstatement\<close>: the table is walked in order; \<open>t\<close> is the text at \<^verbatim>\<open>txtPtr\<close>.\<close>

fun matchtab :: "(string \<times> nat \<times> stmnttype) list \<Rightarrow> string \<Rightarrow> nat" where
  "matchtab [] t = ILLEGAL"
| "matchtab ((name, token, ty) # tab) t =
    (if take (length name) t = name \<and>
        (token \<ge> TOK_POKEWORD \<or> token \<le> TOK_COMM
         \<or> chr_at t (length name) = NUL \<or> chr_at t (length name) = CHR '' ''
         \<or> chr_at t (length name) = CHR '';'')
     then token
     else matchtab tab t)"

definition matchstatement :: "state \<Rightarrow> nat" where
  "matchstatement s = matchtab stmnttab (rest s)"

definition checkNoMoreArgs :: "state \<Rightarrow> nat \<times> state" where
  "checkNoMoreArgs s0 =
    (let s = eatspace s0 in
     if cur s \<noteq> NUL \<and> cur s \<noteq> CHR '';''
     then (1, print (rest s) (printchar CHR '' '' (error ERR_EXTRA s)))
     else (0, s))"

text \<open>Modelled from the spec: \<^verbatim>\<open>checkInterrupted\<close> is declared in \<^verbatim>\<open>eightballutils.h\<close>; it
  polls the keyboard for a stop request. Its answers are taken from the field \<open>keys\<close>,
  one at every call; when the list is used up the answer is no.\<close>

definition checkInterrupted :: "state \<Rightarrow> bool \<times> state" where
  "checkInterrupted s = (case keys s of [] \<Rightarrow> (False, s) | k # ks \<Rightarrow> (k, s\<lparr>keys := ks\<rparr>))"

text \<open>The loop at the head of \<^verbatim>\<open>parseline\<close> that eats semicolons: the flag tells that the
  end of the line came right behind a semicolon (\<^verbatim>\<open>return 0\<close>). The loop moves on by at
  least one character a round.\<close>

primrec semicolons :: "nat \<Rightarrow> state \<Rightarrow> bool \<times> state" where
  "semicolons 0 s = (False, s)"
| "semicolons (Suc n) s =
    (if cur s = CHR '';'' then
       (let s1 = advance 1 s in
        if cur s1 = NUL then (True, s1) else semicolons n (eatspace s1))
     else (False, s))"

text \<open>The head of a round of \<^verbatim>\<open>parseline\<close>: blanks and semicolons are eaten.\<close>

definition statement_start :: "state \<Rightarrow> bool \<times> state" where
  "statement_start s = semicolons (Suc (length (rest s))) (eatspace s)"

text \<open>The skipping loop: \<^verbatim>\<open>while (*txtPtr && (*txtPtr != ';')) ++txtPtr;\<close>.\<close>

fun upto_semicolon :: "string \<Rightarrow> nat" where
  "upto_semicolon [] = 0"
| "upto_semicolon (c # cs) = (if c = CHR '';'' then 0 else Suc (upto_semicolon cs))"

definition skip_statement :: "state \<Rightarrow> state" where
  "skip_statement s = advance (upto_semicolon (rest s)) s"

definition flow_token :: "nat \<Rightarrow> bool" where
  "flow_token token =
    (token = TOK_IF \<or> token = TOK_ELSE \<or> token = TOK_ENDIF \<or> token = TOK_WHILE
     \<or> token = TOK_ENDW)"

text \<open>The generic parameter handling, by statement type: the status (0, or 2 for
  \<^verbatim>\<open>return 2\<close>), \<^verbatim>\<open>arg\<close> and \<^verbatim>\<open>arg2\<close>. The two locals are not initialised in C; no handler
  reads one that its statement type has not set, and they are 0 here until then.\<close>

definition getargs :: "interp_t \<Rightarrow> stmnttype \<Rightarrow> state \<Rightarrow> (nat \<times> int \<times> int) result" where
  "getargs rec ty s =
    (case ty of
       NOARGS \<Rightarrow> (case checkNoMoreArgs s of (st, s1) \<Rightarrow> Ret (if st \<noteq> 0 then 2 else 0, int st, 0) s1)
     | ONEARG \<Rightarrow>
         onret (eval rec True s) (\<lambda>(st, arg) s1. Ret (if st \<noteq> 0 then 2 else 0, arg, 0) s1)
     | TWOARGS \<Rightarrow>
         onret (eval rec False s) (\<lambda>(st, arg) s1.
           if st \<noteq> 0 then Ret (2, 0, 0) s1
           else case expect CHR '','' (eatspace s1) of
                  (st2, s2) \<Rightarrow>
                    if st2 \<noteq> 0 then Ret (2, arg, 0) s2
                    else onret (eval rec False s2) (\<lambda>(st3, arg2) s3.
                           Ret (if st3 \<noteq> 0 then 2 else 0, arg, arg2) s3))
     | INITIALARG \<Rightarrow>
         onret (eval rec False s) (\<lambda>(st, arg) s1. Ret (if st \<noteq> 0 then 2 else 0, arg, 0) s1)
     | ONESTRARG \<Rightarrow>
         if cur s \<noteq> CHR 0x22 then Ret (2, 0, 0) s
         else
           (let str = takeWhile (\<lambda>c. c \<noteq> CHR 0x22) (rest (advance 1 s));
                s1 = (advance (Suc (length str)) s)\<lparr>readbuf := str\<rparr>
            in if cur s1 = CHR 0x22
               then (case checkNoMoreArgs (advance 1 s1) of
                       (st, s2) \<Rightarrow> Ret (if st \<noteq> 0 then 2 else 0, int st, 0) s2)
               else Ret (2, 0, 0) (error ERR_STR s1))
     | INITIALNAMEARG \<Rightarrow>
         if \<not> isalphach (cur s) then Ret (2, 0, 0) s
         else
           (let ident = takeWhile isalnumch (rest s) in
            Ret (0, 0, 0) ((advance (length ident) s)\<lparr>readbuf := ident\<rparr>))
     | FULLLINE \<Rightarrow> Ret (0, 0, 0) (advance (length (rest s)) s)
     | CUSTOM \<Rightarrow> Ret (0, 0, 0) s)"

text \<open>What a statement handler tells the loop of \<^verbatim>\<open>parseline\<close>: \<open>None\<close> for \<^verbatim>\<open>break\<close> (go on
  with the next statement), \<open>Some c\<close> for \<^verbatim>\<open>return c\<close>.\<close>

definition brk :: "state \<Rightarrow> nat option result" where
  "brk s = Ret None s"

definition chk :: "(nat \<times> int) result \<Rightarrow> nat option result" where
  "chk r = onret r (\<lambda>(st, _) s. if st \<noteq> 0 then Ret (Some 2) s else Ret None s)"

definition chk1 :: "nat result \<Rightarrow> nat option result" where
  "chk1 r = onret r (\<lambda>st s. if st \<noteq> 0 then Ret (Some 2) s else Ret None s)"

definition to_char :: "int \<Rightarrow> char" where
  "to_char x = char_of (nat (x mod 256))"

definition showfreespace :: "state \<Rightarrow> unit result" where
  "showfreespace s =
    onret (printdec (heap1Ptr s - HEAP1LIM s + 1) (print ''free:\<newline>'' s)) (\<lambda>_ s1.
    onret (printdec (HEAP1TOP s1 - HEAP1LIM s1 + 1) (print '' / '' s1)) (\<lambda>_ s2.
      Ret () (print ''unlimited source,linkage'' (print '' bytecode,vars\<newline>'' s2))))"

text \<open>\<^verbatim>\<open>emitprmsg\<close> of the Linux build: the opcode, the bytes of \<^verbatim>\<open>readbuf\<close> and a
  terminator; \<^verbatim>\<open>rtPC\<close> moves on by one for \<^verbatim>\<open>emit\<close>, by one more, and by one for each
  character.\<close>

definition emitprmsg :: "state \<Rightarrow> state" where
  "emitprmsg s =
    (let s1 = emit VM_PRMSG s in
     s1\<lparr>codemem := codemem s1 @ map (\<lambda>c. Byte (of_char c)) (readbuf s1) @ [Byte 0],
        rtPC := rtPC s1 + 1 + int (length (readbuf s1))\<rparr>)"

text \<open>\<^verbatim>\<open>doendsubr\<close>: the status of \<^verbatim>\<open>doreturn\<close> is dropped.\<close>

definition doendsubr :: "state \<Rightarrow> nat result" where
  "doendsubr s =
    onret (if compile s then
             onret (vars_deletecallframe (s\<lparr>rtSP := rtFP s, compilingsub := False\<rparr>))
               (\<lambda>_ s1. Ret () (emitldi 0 s1))
           else Ret () s) (\<lambda>_ s1.
      onret (doreturn 0 s1) (\<lambda>_ s2. Ret RET_SUCCESS s2))"

text \<open>The \<^verbatim>\<open>switch (token)\<close> of \<^verbatim>\<open>parseline\<close>. Outside the model (\<open>Unmodelled\<close>): the
  statements that read the keyboard (\<^verbatim>\<open>kbd.ln\<close>), print through a pointer or in
  hexadecimal (\<^verbatim>\<open>pr.str\<close>, \<^verbatim>\<open>pr.hex\<close>), print the variable table (\<^verbatim>\<open>vars\<close>), read or write
  source files, and the line editor commands.\<close>

definition statement ::
    "interp_t \<Rightarrow> nat \<Rightarrow> int \<Rightarrow> int \<Rightarrow> nat \<Rightarrow> state \<Rightarrow> nat option result" where
  "statement rec token arg arg2 startTxtPtr s =
    (if token = TOK_COMM then brk s
     else if token = TOK_QUIT then Exit 0 (print ''Bye!\<newline>'' s)
     else if token = TOK_PRDEC then
       (if compile s then brk (emit VM_PRDEC s) else onret (printdec arg s) (\<lambda>_ s1. brk s1))
     else if token = TOK_PRDEC_S then
       (let s1 = (if compile s then
                    (let e1 = emit VM_NOT (emit VM_BITAND (emitldi 0x8000 (emit VM_DUP s)));
                         e2 = emit_imm VM_BRNCHIMM (rtPC e1 + 9) e1
                     in emit VM_PRDEC (emit VM_NEG (emit VM_PRCH (emitldi 45 e2))))
                  else s)
        in if arg < 0 then onret (printdec (- arg) (printchar CHR ''-'' s1)) (\<lambda>_ s2. brk s2)
           else onret (printdec arg s1) (\<lambda>_ s2. brk s2))
     else if token = TOK_PRHEX then (if compile s then brk (emit VM_PRHEX s) else Unmodelled)
     else if token = TOK_PRMSG then
       (if compile s then brk (emitprmsg s) else brk (print (readbuf s) s))
     else if token = TOK_PRNL then
       (if compile s then brk (emit VM_PRCH (emitldi 10 s)) else brk (printchar CHR 0x0A s))
     else if token = TOK_PRSTR then (if compile s then brk (emit VM_PRSTR s) else Unmodelled)
     else if token = TOK_PRCH then
       (if compile s then brk (emit VM_PRCH s) else brk (printchar (to_char arg) s))
     else if token = TOK_KBDCH then
       (if compile s then brk (emit VM_STABYTE (emit VM_SWAP (emit VM_KBDCH s)))
        else brk (print ''kbd.ch unimplemented on Linux\<newline>'' s))
     else if token = TOK_KBDLN then (if compile s then brk (emit VM_KBDLN s) else Unmodelled)
     else if token = TOK_CLEAR then brk (clearvars s)
     else if token = TOK_VARS then Unmodelled
     else if token = TOK_WORD then chk (assignorcreate rec WORD_MODE s)
     else if token = TOK_BYTE then chk (assignorcreate rec BYTE_MODE s)
     else if token = TOK_CONST then chk (assignorcreate rec CONST_MODE s)
     else if token = TOK_RUN then onret (rec (T_run False) s) (\<lambda>_ s1. brk s1)
     else if token = TOK_COMPILE then
       onret (rec (T_run False) (comp_start s)) (\<lambda>_ s1.
         onret (comp_finish s1) (\<lambda>_ s2. brk s2))
     else if token = TOK_NEW then brk (new s)
     else if token = TOK_SUBR then chk1 (dosubr s)
     else if token = TOK_ENDSUBR then chk1 (doendsubr s)
     else if token = TOK_CALL then
       onret (docall rec s) (\<lambda>(st, _) s1.
         if st \<noteq> 0 then Ret (Some 2) s1
         else if compile s1 then brk (emit VM_DROP s1)
         else case rs_at s1 2 of
                None \<Rightarrow> Undefined
              | Some l \<Rightarrow> if l = - 1 then onret (rec (T_run True) s1) (\<lambda>_ s2. brk s2)
                          else brk s1)
     else if token = TOK_RET then
       onret (doreturn arg s) (\<lambda>st s1.
         if st \<noteq> 0 then Ret (Some 2) s1
         else case rs_at s1 2 of
                None \<Rightarrow> Undefined
              | Some l \<Rightarrow> if l = - 2 then Ret (Some 1) s1 else brk s1)
     else if token = TOK_IF then onret (doif arg s) (\<lambda>_ s1. brk s1)
     else if token = TOK_ELSE then chk1 (doelse s)
     else if token = TOK_ENDIF then chk1 (doendif s)
     else if token = TOK_FOR then chk (assignorcreate rec FOR_MODE s)
     else if token = TOK_ENDFOR then chk1 (doendfor s)
     else if token = TOK_WHILE then onret (dowhile (int startTxtPtr) arg s) (\<lambda>_ s1. brk s1)
     else if token = TOK_ENDW then chk1 (doendwhile s)
     else if token = TOK_END then
       (if compile s then brk (emit VM_END s) else Ret (Some 1) s)
     else if token = TOK_MODE then brk s
     else if token = TOK_FREE then onret (showfreespace s) (\<lambda>_ s1. brk s1)
     else if token = TOK_POKEWORD \<or> token = TOK_POKEBYTE then
       (case expect CHR ''='' (eatspace s) of
          (st, s1) \<Rightarrow>
            if st \<noteq> 0 then Ret (Some 2) s1
            else
              onret (eval rec True s1) (\<lambda>(st2, arg2) s2.
                if st2 \<noteq> 0 then Ret (Some 2) s2
                else if compile s2 then
                  Ret (Some 0)
                    (emit (if token = TOK_POKEWORD then VM_STAWORD else VM_STABYTE) (emit VM_SWAP s2))
                else
                  case (if token = TOK_POKEWORD then poke (vars s2) sizeof_int arg arg2
                        else poke (vars s2) 1 arg (to_byte arg2)) of
                    None \<Rightarrow> Undefined
                  | Some vs \<Rightarrow> brk (s2\<lparr>vars := vs\<rparr>)))
     else if token \<ge> TOK_LOAD \<and> token \<le> TOK_DEL then Unmodelled
     else Exit 99 s)"

text \<open>\<^verbatim>\<open>parseline\<close>: one round of its \<^verbatim>\<open>for (;;)\<close>; the next round is a call through \<open>rec\<close>.
  The status is 0 (keep executing), 1 (normal stop), 2 (error) or 3 (user stop).\<close>

definition parseline :: "interp_t \<Rightarrow> state \<Rightarrow> (nat \<times> int) result" where
  "parseline rec s0 =
    (case checkInterrupted s0 of
       (True, s1) \<Rightarrow> Ret (3, 0) s1
     | (False, s1) \<Rightarrow>
        (case statement_start s1 of
           (True, s2) \<Rightarrow> Ret (0, 0) s2
         | (False, s2) \<Rightarrow>
            if cur s2 = NUL then Ret (0, 0) s2
            else
              let startTxtPtr = txtPtr s2; token = matchstatement s2 in
              if skipFlag s2 \<and> \<not> flow_token token then rec T_parseline (skip_statement s2)
              else if token = ILLEGAL then
                onret (assignorcreate rec LET_MODE s2) (\<lambda>(st, _) s3.
                  if st \<noteq> 0 then Ret (2, 0) s3 else rec T_parseline s3)
              else
                case stmnttab ! (token - TOK_COMM) of
                  (name, _, ty) \<Rightarrow>
                    let s3 = eatspace (advance (length name) s2);
                        s4 = s3\<lparr>rtPCBeforeEval := rtPC s3\<rparr>
                    in
                    onret (getargs rec ty s4) (\<lambda>(st, arg, arg2) s5.
                      if st \<noteq> 0 then Ret (2, 0) s5
                      else
                        onret (statement rec token arg arg2 startTxtPtr s5) (\<lambda>r s6.
                          case r of
                            None \<Rightarrow> rec T_parseline s6
                          | Some c \<Rightarrow> Ret (c, 0) s6))))"

subsection \<open>run\<close>

text \<open>The head of \<^verbatim>\<open>run\<close>, before its loop.\<close>

definition run_init :: "bool \<Rightarrow> state \<Rightarrow> state" where
  "run_init cont s =
    (let s1 = s\<lparr>calllevel := 0, skipFlag := False\<rparr> in
     if \<not> cont
     then (clearvars (s1\<lparr>counter := 0\<rparr>))
            \<lparr>returnSP := RETSTACKSZ - 1,
             current := (if program s1 = [] then None else Some 0)\<rparr>
     else s1)"

text \<open>The \<^verbatim>\<open>switch (status)\<close> behind the loop.\<close>

definition run_exit :: "nat \<Rightarrow> state \<Rightarrow> (nat \<times> int) result" where
  "run_exit status s =
    (if status = 2 \<or> status = 3 then
       onret (printdec (counter s) (print (if status = 2 then '' err at '' else ''\<newline>Brk at '') s))
         (\<lambda>_ s1. Ret (0, 0)
            ((printchar CHR 0x0A s1)\<lparr>returnSP := RETSTACKSZ - 1, skipFlag := False,
                                         compile := False\<rparr>))
     else Ret (0, 0) s)"

text \<open>One round of \<^verbatim>\<open>while (current && !status)\<close>.\<close>

definition run_loop :: "interp_t \<Rightarrow> nat \<Rightarrow> state \<Rightarrow> (nat \<times> int) result" where
  "run_loop rec status s =
    (case current s of
       None \<Rightarrow> run_exit status s
     | Some l \<Rightarrow>
        if status \<noteq> 0 then run_exit status s
        else
          let s1 = (if compile s then printchar CHR ''.'' s else s) in
          onret (rec T_parseline (s1\<lparr>txtBuf := program s1 ! l, txtPtr := 0\<rparr>)) (\<lambda>(st, _) s2.
            case current s2 of
              None \<Rightarrow> run_exit st s2
            | Some l2 \<Rightarrow>
                rec (T_run_loop st)
                  (s2\<lparr>current := (if Suc l2 < length (program s2) then Some (Suc l2) else None),
                      counter := counter s2 + 1\<rparr>)))"

definition run :: "interp_t \<Rightarrow> bool \<Rightarrow> state \<Rightarrow> (nat \<times> int) result" where
  "run rec cont s = run_loop rec 0 (run_init cont s)"

subsection \<open>Tying the knot\<close>

text \<open>\<open>interp n\<close> runs a task with \<open>n\<close> nested calls through \<open>rec\<close> at most; when the fuel
  is used up the outcome is \<open>OutOfFuel\<close>.\<close>

primrec interp :: "nat \<Rightarrow> task \<Rightarrow> state \<Rightarrow> (nat \<times> int) result" where
  "interp 0 tk s = OutOfFuel"
| "interp (Suc n) tk s =
    (case tk of
       T_P \<Rightarrow> P (interp n) s
     | T_E_loop \<Rightarrow> E_loop (interp n) s
     | T_parseline \<Rightarrow> parseline (interp n) s
     | T_run cont \<Rightarrow> run (interp n) cont s
     | T_run_loop status \<Rightarrow> run_loop (interp n) status s)"

subsection \<open>Start-up\<close>

text \<open>The globals as \<^verbatim>\<open>main\<close> finds them (statics are zero) and as it leaves them when it
  reaches the warm-reset point: \<^verbatim>\<open>calllevel = 1\<close>, an empty return stack, no variables, no
  program, heap 1 cleared. The argument is the address of \<^verbatim>\<open>heap1[]\<close>; \<open>ks\<close> is what
  \<^verbatim>\<open>checkInterrupted\<close> will answer, call by call.\<close>

definition startup :: "int \<Rightarrow> bool list \<Rightarrow> state" where
  "startup h ks =
    \<lparr> compile = False, compilingsub = False, onlyconstants = False,
      compiletimelookup = False, readbuf = [], lnbuf = [], filename = [],
      txtBuf = [], txtPtr = 0,
      operand_stack = replicate STACKSZ 0, operator_stack = replicate STACKSZ 0,
      return_stack = replicate RETSTACKSZ 0,
      operatorSP = 0, operandSP = 0, returnSP = RETSTACKSZ - 1,
      rtPC = 0, rtSP = 0, rtFP = 0, rtPCBeforeEval = 0, codemem = [],
      program = [], current = None, counter = 0, retregister = 0,
      heap1 = h, heap1Ptr = h + HEAP1SZ - 1, editmode = 0, skipFlag = False,
      calllevel = 1, vars = [], varslocal = None, subs = [], calls = [],
      outp = [], keys = ks, bytefile = None,
      RTPCSTART = 0, RTCALLSTACKTOP = 0, RTCALLSTACKLIM = 0 \<rparr>"

text \<open>\<^verbatim>\<open>clearexprstacks()\<close>.\<close>

definition clearexprstacks :: "state \<Rightarrow> unit result" where
  "clearexprstacks s =
    push_operator_stack SENTINEL (s\<lparr>operandSP := STACKSZ - 1, operatorSP := STACKSZ - 1\<rparr>)"

subsection \<open>The read-eval-print loop\<close>

definition appendline :: "string \<Rightarrow> state \<Rightarrow> state option" where
  "appendline line s =
    (case current s of
       None \<Rightarrow> None
     | Some c \<Rightarrow>
         Some (s\<lparr>program := take (Suc c) (program s) @ [line] @ drop (Suc c) (program s),
                 current := Some (Suc c)\<rparr>))"

definition insertfirstline :: "string \<Rightarrow> state \<Rightarrow> state" where
  "insertfirstline line s = s\<lparr>program := line # program s\<rparr>"

text \<open>One round of the \<^verbatim>\<open>for (;;)\<close> of \<^verbatim>\<open>main\<close>. Modelled from the spec: \<^verbatim>\<open>getln\<close> is declared
  in \<^verbatim>\<open>eightballutils.h\<close>; the line that it reads from the console is the argument
  \<open>line\<close>. \<open>immediate_entry\<close> is the state in which \<^verbatim>\<open>parseline\<close> is called in immediate
  mode, given the state behind \<^verbatim>\<open>clearexprstacks()\<close>.\<close>

definition immediate_entry :: "string \<Rightarrow> state \<Rightarrow> state" where
  "immediate_entry line s =
    s\<lparr>compile := False, lnbuf := line, txtBuf := line, txtPtr := 0, current := None,
      counter := - 1\<rparr>"

text \<open>What \<^verbatim>\<open>main\<close> does with the status of \<^verbatim>\<open>parseline\<close> in immediate mode.\<close>

definition immediate_exit :: "nat \<Rightarrow> state \<Rightarrow> state" where
  "immediate_exit st s =
    (let s1 = (if st = 0 \<or> st = 1 then printchar CHR 0x0A s
               else if st = 2
                 then (print '' err\<newline>'' s)\<lparr>returnSP := RETSTACKSZ - 1, skipFlag := False\<rparr>
               else if st = 3
                 then (print ''Brk\<newline>'' s)\<lparr>returnSP := RETSTACKSZ - 1, skipFlag := False\<rparr>
               else s);
         s2 = (if returnSP s1 \<noteq> RETSTACKSZ - 1
               then (error ERR_STACK s1)\<lparr>returnSP := RETSTACKSZ - 1\<rparr> else s1)
     in s2\<lparr>skipFlag := False\<rparr>)"

definition main_round :: "interp_t \<Rightarrow> string \<Rightarrow> state \<Rightarrow> unit result" where
  "main_round rec line s =
    onret (clearexprstacks s) (\<lambda>_ s1.
      if editmode s1 = 0 then
        onret (rec T_parseline (immediate_entry line s1))
          (\<lambda>(st, _) s2. Ret () (immediate_exit st s2))
      else
        let s2 = (printchar CHR ''>'' s1)\<lparr>compile := False, lnbuf := line\<rparr> in
        if editmode s2 = 1 then
          (if chr_at line 0 = CHR ''.'' then Ret () (s2\<lparr>editmode := 0\<rparr>)
           else case appendline line s2 of None \<Rightarrow> Undefined | Some s3 \<Rightarrow> Ret () s3)
        else if editmode s2 = 2 then
          Ret () ((findline 1 (insertfirstline line s2))\<lparr>editmode := 1\<rparr>)
        else Ret () s2)"

text \<open>The code at the \<^verbatim>\<open>setjmp\<close> of \<^verbatim>\<open>main\<close> when a \<^verbatim>\<open>longjmp\<close> arrives: it prints
  \<^verbatim>\<open>Restart\<close> and falls into the loop.\<close>

definition warm_reset :: "state \<Rightarrow> state" where
  "warm_reset s = print ''Restart\<newline>'' s"

text \<open>\<^verbatim>\<open>main\<close> from the warm-reset point on, fed with the lines that the console delivers.
  A round that ends in a \<^verbatim>\<open>longjmp\<close> continues at the warm-reset point with the globals
  as the jump found them. When the input is used up the state is returned.\<close>

primrec main_loop :: "nat \<Rightarrow> string list \<Rightarrow> state \<Rightarrow> unit result" where
  "main_loop fuel [] s = Ret () s"
| "main_loop fuel (line # more_lines) s =
    (case main_round (interp fuel) line s of
       Ret _ s1 \<Rightarrow> main_loop fuel more_lines s1
     | Longjmp s1 \<Rightarrow> main_loop fuel more_lines (warm_reset s1)
     | Exit n s1 \<Rightarrow> Exit n s1
     | Undefined \<Rightarrow> Undefined
     | Unmodelled \<Rightarrow> Unmodelled
     | OutOfFuel \<Rightarrow> OutOfFuel)"

subsection \<open>Observations of a session\<close>

text \<open>The console and the variable table once \<^verbatim>\<open>main\<close> waits for the next line; \<open>None\<close>
  when the session did not get there.\<close>

definition console :: "unit result \<Rightarrow> string option" where
  "console r = (case r of Ret _ s \<Rightarrow> Some (outp s) | _ \<Rightarrow> None)"

definition variables :: "unit result \<Rightarrow> vartabent list option" where
  "variables r = (case r of Ret _ s \<Rightarrow> Some (vars s) | _ \<Rightarrow> None)"

text \<open>The state that a \<^verbatim>\<open>longjmp\<close> carried to the warm-reset point, if the round ended in
  one.\<close>

definition jumped :: "unit result \<Rightarrow> state option" where
  "jumped r = (case r of Longjmp s \<Rightarrow> Some s | _ \<Rightarrow> None)"

text \<open>The line of scenario 2 of the specification.\<close>

definition for_line :: string where
  "for_line = ''for i = 1 : 4 ; pr.dec i ; pr.ch '' @ [CHR 0x27, CHR '' '', CHR 0x27]
                @ '' ; endfor ; pr.nl''"


text \<open>Twenty-two \<^verbatim>\<open>if\<close> statements on one line: one more than the return stack holds.\<close>

definition overflow_line :: string where
  "overflow_line = concat (replicate 22 ''if 0;'')"

text \<open>A state in which the operator on top of the operator stack is \<open>tok\<close> and the operand
  stack holds 7 below a 0 on top.\<close>

definition div_zero_state :: "bool \<Rightarrow> nat \<Rightarrow> state" where
  "div_zero_state c tok =
     (startup 4096 [])\<lparr>compile := c, operatorSP := 13,
        operator_stack := (replicate STACKSZ 0)[15 := SENTINEL, 14 := tok],
        operandSP := 13, operand_stack := (replicate STACKSZ 0)[15 := 7, 14 := 0]\<rparr>"

text \<open>A state whose innermost open frame is an \<^verbatim>\<open>IFFRAME\<close> with the given status.\<close>

definition if_state :: "int \<Rightarrow> bool \<Rightarrow> state" where
  "if_state st skip =
    (startup 4096 [])\<lparr>returnSP := 60, skipFlag := skip,
       return_stack := (replicate RETSTACKSZ 0)[63 := IFFRAME, 62 := st]\<rparr>"






text \<open>A state inside a subroutine that was called from inside another one. The program
  calls \<^verbatim>\<open>f\<close> from line 1; \<^verbatim>\<open>f\<close> invokes \<^verbatim>\<open>g\<close> as a function in line 4; the state is the one
  in which the \<^verbatim>\<open>return 7\<close> of line 8 is executed. The variable table holds the global
  \<^verbatim>\<open>x\<close>, the frame of \<^verbatim>\<open>f\<close> (marker, \<^verbatim>\<open>n\<close>) and the frame of \<^verbatim>\<open>g\<close> (marker, \<^verbatim>\<open>m\<close>). The return
  stack holds, from the top: the call frame of \<^verbatim>\<open>f\<close> (tag, line 1, text pointer 9), the
  three slots that \<^verbatim>\<open>P\<close> pushes for a function invocation (tag, -2, -1), the call frame of
  \<^verbatim>\<open>g\<close> (tag, line 4, text pointer 11) and the \<^verbatim>\<open>IFFRAME\<close> of line 7. The call level is 0:
  \<^verbatim>\<open>run(1)\<close>, which \<^verbatim>\<open>P\<close> calls for the body of \<^verbatim>\<open>g\<close>, has reset it.\<close>

definition return_program :: "string list" where
  "return_program =
    [''word x = 5'', ''call f(1)'', ''end'', ''sub f(word n)'', ''pr.dec g(n)'', ''endsub'',
     ''sub g(word m)'', ''if m'', ''return 7'', ''endif'', ''endsub'']"

definition return_state :: state where
  "return_state =
    (startup 4096 [])
      \<lparr>program := return_program,
       vars := [\<lparr>vname = ''x'', vtype = TYPE_WORD, vaddr = 20463, vword = 5, vdim = 0, vbody = []\<rparr>,
                \<lparr>vname = ''----'', vtype = TYPE_WORD, vaddr = 20447, vword = 20463, vdim = 0,
                  vbody = []\<rparr>,
                \<lparr>vname = ''n'', vtype = TYPE_WORD, vaddr = 20431, vword = 1, vdim = 0, vbody = []\<rparr>,
                \<lparr>vname = ''----'', vtype = TYPE_WORD, vaddr = 20415, vword = 20431, vdim = 0,
                  vbody = []\<rparr>,
                \<lparr>vname = ''m'', vtype = TYPE_WORD, vaddr = 20399, vword = 1, vdim = 0, vbody = []\<rparr>],
       varslocal := Some 3, heap1Ptr := 20399, calllevel := 0,
       return_stack := (replicate RETSTACKSZ 0)
                         [63 := CALLFRAME, 62 := 1, 61 := 9,
                          60 := CALLFRAME, 59 := - 2, 58 := - 1,
                          57 := CALLFRAME, 56 := 4, 55 := 11,
                          54 := IFFRAME, 53 := 2, 52 := 0],
       returnSP := 51, current := Some 8, counter := 8, txtBuf := ''return 7'', txtPtr := 8\<rparr>"





subsection \<open>States and observations for the declaration of arrays\<close>

text \<open>What a call returned: its value and the state, if it came back to its caller.\<close>

definition returned :: "'a result \<Rightarrow> ('a \<times> state) option" where
  "returned r = (case r of Ret v s \<Rightarrow> Some (v, s) | _ \<Rightarrow> None)"

definition ret_state :: "'a result \<Rightarrow> state" where
  "ret_state r = (case r of Ret v s \<Rightarrow> s | _ \<Rightarrow> startup 0 [])"

text \<open>The state in which \<^verbatim>\<open>parseline\<close> calls \<^verbatim>\<open>assignorcreate(WORD_MODE)\<close> for the line
  \<^verbatim>\<open>word a[-1] = {}\<close> typed at the prompt of a fresh interpreter, and the states behind the
  subscript and behind the \<^verbatim>\<open>=\<close>.\<close>

definition neg_dim_state :: state where
  "neg_dim_state =
    (startup 4096 [])\<lparr>lnbuf := ''word a[-1] = {}'', txtBuf := ''word a[-1] = {}'', txtPtr := 5,
       operatorSP := 14, operandSP := 15,
       operator_stack := (replicate STACKSZ 0)[15 := SENTINEL]\<rparr>"

definition neg_dim_state2 :: state where
  "neg_dim_state2 =
    ret_state (subscript (interp 20)
      ((advance 1 neg_dim_state)\<lparr>onlyconstants := True, compile := False\<rparr>))"

definition neg_dim_state3 :: state where
  "neg_dim_state3 =
    snd (expect CHR ''='' (eatspace (neg_dim_state2\<lparr>onlyconstants := False, compile := False\<rparr>)))"

subsection \<open>What the linker is to compute\<close>

text \<open>A pending call is resolvable when the definition list has a subroutine of its name;
  \<open>patch\<close> writes the address of that subroutine into the two bytes of the placeholder, low
  byte first. \<open>placeholder_ok\<close>: the placeholder lies inside the code emitted so far.\<close>

definition resolvable :: "subtabent list \<Rightarrow> subtabent \<Rightarrow> bool" where
  "resolvable defs c = (find_sub (sname c) defs \<noteq> None)"

definition patch :: "subtabent list \<Rightarrow> int \<Rightarrow> cell list \<Rightarrow> subtabent \<Rightarrow> cell list" where
  "patch defs base cm c =
    (case find_sub (sname c) defs of
       None \<Rightarrow> cm
     | Some d \<Rightarrow> cm[nat (saddr c - base) := lobyte (saddr d),
                    nat (saddr c - base) + 1 := hibyte (saddr d)])"

definition placeholder_ok :: "state \<Rightarrow> subtabent \<Rightarrow> bool" where
  "placeholder_ok s c =
    (0 \<le> saddr c - RTPCSTART s \<and> saddr c - RTPCSTART s + 1 < int (length (codemem s)))"

text \<open>A program that calls \<^verbatim>\<open>foobar\<close> and \<^verbatim>\<open>foo\<close> and defines \<^verbatim>\<open>foo\<close> only, the interpreter
  that holds a program, and the line that compiles it to the file \<^verbatim>\<open>out\<close>. \<open>link_state\<close> is
  the state in which \<^verbatim>\<open>run(0)\<close> returns to the \<^verbatim>\<open>comp\<close> statement: \<^verbatim>\<open>docall\<close> has accepted
  both calls (\<^verbatim>\<open>compareUntil\<close> lets the name of a call go on behind the name on the \<^verbatim>\<open>sub\<close>
  line), and \<^verbatim>\<open>dosubr\<close> has entered \<^verbatim>\<open>foo\<close> into the definition list.\<close>

definition link_program :: "string list" where
  "link_program = [''call foobar()'', ''call foo()'', ''end'', ''sub foo()'', ''endsub'']"

definition stored :: "string list \<Rightarrow> state" where
  "stored p = (startup 4096 [])\<lparr>program := p\<rparr>"

definition comp_line :: string where
  "comp_line = ''comp '' @ [CHR 0x22] @ ''out'' @ [CHR 0x22]"

definition link_state :: state where
  "link_state =
    ret_state (interp 60 (T_run False) (comp_start ((stored link_program)\<lparr>readbuf := ''out''\<rparr>)))"

text \<open>The bytecode file once \<^verbatim>\<open>main\<close> waits for the next line; \<open>None\<close> when none was
  written.\<close>

definition written :: "unit result \<Rightarrow> cell list option" where
  "written r = (case r of Ret _ s \<Rightarrow> bytefile s | _ \<Rightarrow> None)"

section \<open>Verified properties\<close>

lemma onret_simps [simp]:
  "onret (Ret v s) k = k v s"
  "onret (Longjmp s) k = Longjmp s"
  "onret (Exit n s) k = Exit n s"
  "onret Undefined k = Undefined"
  "onret Unmodelled k = Unmodelled"
  "onret OutOfFuel k = OutOfFuel"
  by (simp_all add: onret_def)


text \<open>C7. The precedence function over operator tokens is exactly the table of the
  specification: the unary operators (minus, plus, logical not, bitwise not, word
  dereference, byte dereference) have precedence 11; power, times, divide and modulo
  have 10; binary plus and minus 9; the shifts 8; the four order comparisons 7; equality
  and inequality 6; bitwise and 5; bitwise xor 4; bitwise or 3; logical and 2; logical
  or 1; \<open>SENTINEL\<close> has 0. Every other token has no precedence (the function exits), so
  0 is the lowest value and only \<open>SENTINEL\<close> has it.\<close>

theorem getprecedence_table:
  "getprecedence t =
     (if t \<in> {TOK_UNM, TOK_UNP, TOK_NOT, TOK_BITNOT, TOK_STAR, TOK_CARET} then Some 11
      else if t \<in> {TOK_POW, TOK_MUL, TOK_DIV, TOK_MOD} then Some 10
      else if t \<in> {TOK_ADD, TOK_SUB} then Some 9
      else if t \<in> {TOK_LSH, TOK_RSH} then Some 8
      else if t \<in> {TOK_LT, TOK_LTE, TOK_GT, TOK_GTE} then Some 7
      else if t \<in> {TOK_EQL, TOK_NEQL} then Some 6
      else if t = TOK_BITAND then Some 5
      else if t = TOK_BITXOR then Some 4
      else if t = TOK_BITOR then Some 3
      else if t = TOK_AND then Some 2
      else if t = TOK_OR then Some 1
      else if t = SENTINEL then Some 0
      else None)"
  by (simp add: getprecedence_def)

theorem getprecedence_table_witness:
  "getprecedence TOK_DIV = Some 10 \<and> getprecedence SENTINEL = Some 0
     \<and> getprecedence ILLEGAL = None"
  using getprecedence_table [of TOK_DIV] getprecedence_table [of SENTINEL]
    getprecedence_table [of ILLEGAL]
  by simp

lemma pop_operator_div_zero_interp:
  assumes "operatorSP s + 1 < STACKSZ"
    and "operator_stack s ! (operatorSP s + 1) = tok"
    and "tok = TOK_DIV \<or> tok = TOK_MOD"
    and "\<not> compile s" and "operandSP s + 2 < STACKSZ"
    and "operand_stack s ! (operandSP s + 1) = 0"
  shows "pop_operator s =
            Ret 1 (s\<lparr>operatorSP := operatorSP s + 1, operandSP := operandSP s + 2,
                     outp := outp s @ ''?div/0''\<rparr>)"
proof -
  have 1: "pop_operator_stack s = Ret tok (s\<lparr>operatorSP := operatorSP s + 1\<rparr>)"
    using assms(1,2) by (simp add: pop_operator_stack_def Let_def)
  have 2: "pop_operand_stack (s\<lparr>operatorSP := operatorSP s + 1\<rparr>)
       = Ret 0 (s\<lparr>operatorSP := operatorSP s + 1, operandSP := operandSP s + 1\<rparr>)"
    using assms(4,5,6) by (simp add: pop_operand_stack_def Let_def)
  have 3: "pop_operand_stack (s\<lparr>operatorSP := operatorSP s + 1, operandSP := operandSP s + 1\<rparr>)
       = Ret (operand_stack s ! (operandSP s + 2)) (s\<lparr>operatorSP := operatorSP s + 1, operandSP := operandSP s + 2\<rparr>)"
    using assms(4,5) by (simp add: pop_operand_stack_def Let_def)
  have 4: "\<not> ISUNARY tok" using assms(3) by (auto simp: ISUNARY_def)
  have 5: "apply_binary tok 0 x (s\<lparr>operatorSP := operatorSP s + 1, operandSP := operandSP s + 2\<rparr>)
     = Ret 1 (s\<lparr>operatorSP := operatorSP s + 1, operandSP := operandSP s + 2,
                     outp := outp s @ ''?div/0''\<rparr>)" for x
  proof -
    from assms(3) show ?thesis
    proof
      assume "tok = TOK_DIV" with assms(4) show ?thesis
        by (simp add: apply_binary_def error_def print_def printchar_def errmsgs_def)
    next
      assume "tok = TOK_MOD" with assms(4) show ?thesis
        by (simp add: apply_binary_def error_def print_def printchar_def errmsgs_def)
    qed
  qed
  show ?thesis
    unfolding pop_operator_def by (simp add: 1 2 [simplified] 3 [simplified] 4 5 [simplified])
qed


lemma pop_operator_div_zero_compile:
  assumes "operatorSP s + 1 < STACKSZ"
    and "operator_stack s ! (operatorSP s + 1) = tok"
    and "tok = TOK_DIV \<or> tok = TOK_MOD"
    and "compile s"
  shows "pop_operator s =
            Ret 0 (s\<lparr>operatorSP := operatorSP s + 1,
                     codemem := codemem s @ [Op (if tok = TOK_DIV then VM_DIV else VM_MOD)],
                     rtPC := rtPC s + 1\<rparr>)"
proof -
  have 1: "pop_operator_stack s = Ret tok (s\<lparr>operatorSP := operatorSP s + 1\<rparr>)"
    using assms(1,2) by (simp add: pop_operator_stack_def Let_def)
  have 2: "pop_operand_stack t = Ret 0 t" if "compile t" for t
    using that by (simp add: pop_operand_stack_def)
  have 4: "\<not> ISUNARY tok" using assms(3) by (auto simp: ISUNARY_def)
  have 5: "apply_binary tok x y t
     = Ret 0 (t\<lparr>codemem := codemem t @ [Op (if tok = TOK_DIV then VM_DIV else VM_MOD)],
                     rtPC := rtPC t + 1\<rparr>)" if "compile t" for x y t
  proof -
    from assms(3) show ?thesis
    proof
      assume "tok = TOK_DIV" with that show ?thesis by (simp add: apply_binary_def emit_def)
    next
      assume "tok = TOK_MOD" with that show ?thesis by (simp add: apply_binary_def emit_def)
    qed
  qed
  show ?thesis
    unfolding pop_operator_def using assms(4) by (simp add: 1 2 4 5)
qed


text \<open>C8. Interpreting: when the operator on top of the operator stack is the binary
  divide or modulo and the right operand (the top of the operand stack) is zero,
  \<^verbatim>\<open>pop_operator\<close> prints \<^verbatim>\<open>?div/0\<close> and returns the error flag 1; the operator and its two
  operands have been popped, nothing is pushed, and the operand stack array and every
  other global are as before. Compiling: no operand is looked at and no check is made;
  \<^verbatim>\<open>VM_DIV\<close> (or \<^verbatim>\<open>VM_MOD\<close>) is emitted and the function returns 0, whatever the operand
  stack holds.\<close>

theorem pop_operator_div_zero:
  assumes "operatorSP s + 1 < STACKSZ"
    and "operator_stack s ! (operatorSP s + 1) = tok"
    and "tok = TOK_DIV \<or> tok = TOK_MOD"
  shows "(\<not> compile s \<and> operandSP s + 2 < STACKSZ
            \<and> operand_stack s ! (operandSP s + 1) = 0 \<longrightarrow>
          pop_operator s =
            Ret 1 (s\<lparr>operatorSP := operatorSP s + 1, operandSP := operandSP s + 2,
                     outp := outp s @ ''?div/0''\<rparr>))
       \<and> (compile s \<longrightarrow>
          pop_operator s =
            Ret 0 (s\<lparr>operatorSP := operatorSP s + 1,
                     codemem := codemem s @ [Op (if tok = TOK_DIV then VM_DIV else VM_MOD)],
                     rtPC := rtPC s + 1\<rparr>))"
  using pop_operator_div_zero_interp [OF assms] pop_operator_div_zero_compile [OF assms] by blast

theorem pop_operator_div_zero_witness:
  "pop_operator (div_zero_state False TOK_DIV)
     = Ret 1 ((div_zero_state False TOK_DIV)\<lparr>operatorSP := 14, operandSP := 15, outp := ''?div/0''\<rparr>)
   \<and> pop_operator (div_zero_state True TOK_MOD)
     = Ret 0 ((div_zero_state True TOK_MOD)\<lparr>operatorSP := 14, codemem := [Op VM_MOD], rtPC := 1\<rparr>)"
  using pop_operator_div_zero [of "div_zero_state False TOK_DIV" TOK_DIV]
    pop_operator_div_zero [of "div_zero_state True TOK_MOD" TOK_MOD]
  by (simp add: div_zero_state_def startup_def)


lemma pop_returns_3:
  "returnSP s + 3 < RETSTACKSZ \<Longrightarrow> pop_returns 3 s = Ret () (s\<lparr>returnSP := returnSP s + 3\<rparr>)"
  by (simp add: eval_nat_numeral pop_return_def Let_def)

text \<open>C5. Interpreting, with an \<^verbatim>\<open>IFFRAME\<close> as the innermost open frame of the return stack
  and status \<open>st\<close> in it (0: \<^verbatim>\<open>skipFlag\<close> was already set at the \<^verbatim>\<open>if\<close>; 1: the \<^verbatim>\<open>if\<close> set it;
  2: the condition held and \<^verbatim>\<open>skipFlag\<close> stayed clear): \<^verbatim>\<open>else\<close> sets \<^verbatim>\<open>skipFlag\<close> when the
  status is 2, clears it when the status is 1 and leaves it alone when the status is 0;
  \<^verbatim>\<open>endif\<close> clears \<^verbatim>\<open>skipFlag\<close> exactly when the status is not 0 and pops the three slots of
  the frame. Both succeed and change nothing else.\<close>

theorem if_frame_else_endif:
  assumes "\<not> compile s"
    and "returnSP s + 3 < RETSTACKSZ"
    and "return_stack s ! (returnSP s + 3) = IFFRAME"
    and "return_stack s ! (returnSP s + 2) = st"
    and "st = 0 \<or> st = 1 \<or> st = 2"
  shows "doelse s =
           Ret RET_SUCCESS
             (s\<lparr>skipFlag := (if st = 2 then True else if st = 1 then False else skipFlag s)\<rparr>)
       \<and> doendif s =
           Ret RET_SUCCESS
             (s\<lparr>skipFlag := (if st \<noteq> 0 then False else skipFlag s),
                returnSP := returnSP s + 3\<rparr>)"
proof
  from assms(5) show "doelse s =
           Ret RET_SUCCESS
             (s\<lparr>skipFlag := (if st = 2 then True else if st = 1 then False else skipFlag s)\<rparr>)"
    using assms(1-4) by (auto simp: doelse_def rs_at_def)
next
  have pops: "pop_returns 3 t = Ret () (t\<lparr>returnSP := returnSP t + 3\<rparr>)"
    if "returnSP t = returnSP s" for t
    using pop_returns_3 [of t] assms(2) that by simp
  from assms(5) show "doendif s =
           Ret RET_SUCCESS
             (s\<lparr>skipFlag := (if st \<noteq> 0 then False else skipFlag s),
                returnSP := returnSP s + 3\<rparr>)"
    using assms(1-4) by (auto simp: doendif_def rs_at_def pops)
qed

theorem if_frame_else_endif_witness:
  "doelse (if_state 1 True) = Ret RET_SUCCESS ((if_state 1 True)\<lparr>skipFlag := False\<rparr>)
   \<and> doendif (if_state 1 True) =
       Ret RET_SUCCESS ((if_state 1 True)\<lparr>skipFlag := False, returnSP := 63\<rparr>)"
  using if_frame_else_endif [of "if_state 1 True" 1]
  by (simp add: if_state_def startup_def)

text \<open>C10. \<^verbatim>\<open>run\<close> with \<^verbatim>\<open>cont == 0\<close> is its loop over the program lines, started in the state
  that the head of \<^verbatim>\<open>run\<close> leaves: the variable table is empty, the return stack pointer
  is \<^verbatim>\<open>RETSTACKSZ - 1\<close>, no name is found by \<^verbatim>\<open>findintvar\<close> (so no variable declared before
  the \<^verbatim>\<open>run\<close> is visible to the program), and the program lines are the ones before.\<close>

theorem run_clears_variables:
  "run rec False s = run_loop rec 0 (run_init False s)
   \<and> vars (run_init False s) = []
   \<and> varslocal (run_init False s) = None
   \<and> returnSP (run_init False s) = RETSTACKSZ - 1
   \<and> findintvar name local (run_init False s) = (None, local)
   \<and> program (run_init False s) = program s"
  by (simp add: run_def run_init_def clearvars_def CLEARHEAP1_def findintvar_def Let_def)




lemma eatspace_only_txtPtr: "eatspace s = s\<lparr>txtPtr := txtPtr (eatspace s)\<rparr>"
  by (simp add: eatspace_def advance_def)




















text \<open>The whole program of that state, run from the prompt, prints the 7 that \<^verbatim>\<open>g\<close> returns.
  With a statement that fails in the place of the \<^verbatim>\<open>return\<close> the run stops in line 8 and
  leaves the variable table, the heap pointer, the call level and the slots of the return
  stack as that state has them.\<close>

lemma return_nested_session:
  "console (main_loop 80 [''run''] (stored return_program)) = Some ''7\<newline>''"
  by code_simp

lemma return_state_reached:
  "vars (ret_state (main_loop 80 [''run''] (stored (return_program[8 := ''pr.dec'']))))
     = vars return_state
   \<and> varslocal (ret_state (main_loop 80 [''run''] (stored (return_program[8 := ''pr.dec'']))))
     = varslocal return_state
   \<and> heap1Ptr (ret_state (main_loop 80 [''run''] (stored (return_program[8 := ''pr.dec'']))))
     = heap1Ptr return_state
   \<and> calllevel (ret_state (main_loop 80 [''run''] (stored (return_program[8 := ''pr.dec'']))))
     = calllevel return_state
   \<and> return_stack (ret_state (main_loop 80 [''run''] (stored (return_program[8 := ''pr.dec'']))))
     = return_stack return_state"
  by code_simp


subsection \<open>The warm-reset point\<close>

lemma clearexprstacks_Ret:
  "clearexprstacks s =
     Ret () (s\<lparr>operandSP := STACKSZ - 1, operatorSP := STACKSZ - 2,
               operator_stack := (operator_stack s)[STACKSZ - 1 := SENTINEL]\<rparr>)"
  by (simp add: clearexprstacks_def push_operator_stack_def)

text \<open>C1. An unrecoverable error long-jumps to the recovery point at the top of \<^verbatim>\<open>main\<close>.
  The claim is that the return stack pointer is \<open>RETSTACKSZ - 1\<close> and \<open>skipFlag\<close> is clear
  before the next line is read and parsed. The code at the recovery point only prints
  \<^verbatim>\<open>Restart\<close>: whatever state \<open>s\<close> the jump carries, \<^verbatim>\<open>parseline\<close> is called for the next line
  with the return stack pointer and the skip flag of \<open>s\<close>. A line of twenty-two \<^verbatim>\<open>if 0;\<close>
  overflows the return stack and jumps with the return stack pointer 0 and the skip flag
  set; the next line, \<^verbatim>\<open>pr.dec 5\<close>, is then skipped instead of printing 5, and only after
  it does \<^verbatim>\<open>main\<close> report \<^verbatim>\<open>?stack\<close> and reset the two.\<close>

theorem longjmp_keeps_return_stack:
  "(\<exists>s1. clearexprstacks (warm_reset s) = Ret () s1
        \<and> returnSP (immediate_entry line s1) = returnSP s
        \<and> skipFlag (immediate_entry line s1) = skipFlag s)
   \<and> map_option returnSP (jumped (main_round (interp 60) overflow_line (startup 4096 [])))
       = Some 0
   \<and> map_option skipFlag (jumped (main_round (interp 60) overflow_line (startup 4096 [])))
       = Some True
   \<and> console (main_loop 60 [overflow_line, ''pr.dec 5''] (startup 4096 []))
       = Some ''?stackRestart\<newline>\<newline>?stack''"
proof -
  have a: "\<exists>s1. clearexprstacks (warm_reset s) = Ret () s1
        \<and> returnSP (immediate_entry line s1) = returnSP s
        \<and> skipFlag (immediate_entry line s1) = skipFlag s"
    by (simp add: clearexprstacks_Ret warm_reset_def print_def immediate_entry_def)
  have b: "map_option returnSP (jumped (main_round (interp 60) overflow_line (startup 4096 [])))
       = Some 0"
    by code_simp
  have c: "map_option skipFlag (jumped (main_round (interp 60) overflow_line (startup 4096 [])))
       = Some True"
    by code_simp
  have d: "console (main_loop 60 [overflow_line, ''pr.dec 5''] (startup 4096 []))
       = Some ''?stackRestart\<newline>\<newline>?stack''"
    by code_simp
  from a b c d show ?thesis by blast
qed

text \<open>The same second line after a line that ends without a jump prints its 5.\<close>

lemma no_longjmp_next_line:
  "console (main_loop 60 [''if 0; endif'', ''pr.dec 5''] (startup 4096 []))
     = Some ''\<newline>5\<newline>''"
  by code_simp

subsection \<open>Array declarations\<close>

lemma createintvar_bad_dim:
  "sz < 1 \<Longrightarrow>
   createintvar rec name ty isarray sz v b s =
     Ret (1, 0) (error (if fst (findintvar name True s) = None then ERR_DIM else ERR_REDEF) s)"
  by (cases "findintvar name True s"; cases "fst (findintvar name True s)")
     (auto simp: createintvar_def)

lemma vars_error: "vars (error e s) = vars s"
  by (simp add: error_def print_def printchar_def)

lemma vars_eatspace: "vars (eatspace s) = vars s"
  by (simp add: eatspace_def advance_def)

lemma vars_expect: "vars (snd (expect c s)) = vars s"
  by (simp add: expect_def vars_error vars_eatspace advance_def printchar_def)

text \<open>C2, as the code has it. A declaration \<^verbatim>\<open>word\<close>, \<^verbatim>\<open>byte\<close> or \<^verbatim>\<open>const\<close> of an array
  \<^verbatim>\<open>name[expr] = ...\<close> whose size expression evaluates to a negative value returns the error
  flag and adds no descriptor to the variable list (the list is the one that the
  evaluation of the size left). It reports \<^verbatim>\<open>bad dim\<close> when the name is not yet declared in
  the local scope, and \<^verbatim>\<open>redef\<close> when it is: \<^verbatim>\<open>createintvar\<close> looks for the name before it
  looks at the size.\<close>

theorem array_negative_dim:
  assumes "mode = WORD_MODE \<or> mode = BYTE_MODE \<or> mode = CONST_MODE"
    and "isalphach (cur s)"
    and "s1 = advance (length (takeWhile isalnumch (rest s))) s"
    and "cur s1 = CHR ''[''"
    and "subscript rec (if mode = CONST_MODE then s1
                        else s1\<lparr>onlyconstants := True, compile := False\<rparr>) = Ret (0, i) s2"
    and "i < 0"
    and "expect CHR ''='' (eatspace (if mode = CONST_MODE then s2
           else s2\<lparr>onlyconstants := False, compile := compile s\<rparr>)) = (0, s3)"
    and "s4 = (eatspace s3)\<lparr>compile := compile s\<rparr>"
    and "e = (if fst (findintvar (take VARNUMCHARS (takeWhile isalnumch (rest s))) True s4) = None
              then ERR_DIM else ERR_REDEF)"
  shows "assignorcreate rec mode s = Ret (RET_ERROR, 0) (error e s4)
       \<and> vars (error e s4) = vars s2"
proof -
  have i: "i \<noteq> 0" "(if i = 0 then i + 1 else i) = i" using assms(6) by auto
  have c: "createintvar rec name ty isarray i v b t =
     Ret (1, 0) (error (if fst (findintvar name True t) = None then ERR_DIM else ERR_REDEF) t)"
    for name ty isarray v b t
    using assms(6) by (intro createintvar_bad_dim) simp
  have r: "assignorcreate rec mode s = Ret (RET_ERROR, 0) (error e s4)"
  proof (cases "mode = CONST_MODE")
    case True
    with assms(2-5,7,8,9) show ?thesis
      by (simp add: assignorcreate_def Let_def assms(3) [symmetric] i c)
  next
    case False
    with assms(1) have m: "mode = WORD_MODE \<or> mode = BYTE_MODE" by simp
    with False assms(2-5,7,8,9) show ?thesis
      by (auto simp add: assignorcreate_def Let_def assms(3) [symmetric] i c)
  qed
  have "vars s3 = vars s2"
    using vars_expect [of "CHR ''=''" "eatspace (if mode = CONST_MODE then s2
           else s2\<lparr>onlyconstants := False, compile := compile s\<rparr>)"] assms(7)
    by (simp add: vars_eatspace split: if_splits)
  then have v: "vars (error e s4) = vars s2"
    by (simp add: vars_error assms(8) vars_eatspace)
  from r v show ?thesis by simp
qed

theorem array_negative_dim_witness:
  "map_option (\<lambda>(v, t). (fst v, outp t, vars t))
     (returned (assignorcreate (interp 20) WORD_MODE neg_dim_state))
   = Some (RET_ERROR, ''?bad dim'', [])"
proof -
  let ?s1 = "advance 1 neg_dim_state"
  let ?s4 = "(eatspace neg_dim_state3)\<lparr>compile := compile neg_dim_state\<rparr>"
  let ?e = "if fst (findintvar (take VARNUMCHARS (takeWhile isalnumch (rest neg_dim_state)))
                         True ?s4) = None
               then ERR_DIM else ERR_REDEF"
  have h2: "isalphach (cur neg_dim_state)" by code_simp
  have h3: "?s1 = advance (length (takeWhile isalnumch (rest neg_dim_state))) neg_dim_state"
    by code_simp
  have h4: "cur ?s1 = CHR ''[''" by code_simp
  have h5: "subscript (interp 20)
       (if WORD_MODE = CONST_MODE then ?s1 else ?s1\<lparr>onlyconstants := True, compile := False\<rparr>)
      = Ret (0, - 1) neg_dim_state2"
    by code_simp
  have h7: "expect CHR ''='' (eatspace (if WORD_MODE = CONST_MODE then neg_dim_state2
           else neg_dim_state2\<lparr>onlyconstants := False, compile := compile neg_dim_state\<rparr>))
      = (0, neg_dim_state3)"
    by code_simp
  have a: "assignorcreate (interp 20) WORD_MODE neg_dim_state = Ret (RET_ERROR, 0) (error ?e ?s4)
       \<and> vars (error ?e ?s4) = vars neg_dim_state2"
    by (rule array_negative_dim [OF _ h2 h3 h4 h5 _ h7]) simp_all
  have b: "outp (error ?e ?s4) = ''?bad dim''"
    by code_simp
  have c: "vars neg_dim_state2 = []"
    by code_simp
  from a b c show ?thesis
    by (simp add: returned_def)
qed

text \<open>With \<^verbatim>\<open>a\<close> declared, the declaration \<^verbatim>\<open>word a[-1] = {}\<close> reports \<^verbatim>\<open>redef\<close>, not
  \<^verbatim>\<open>bad dim\<close>.\<close>

theorem array_negative_dim_redef:
  "console (main_loop 60 [''word a = 1'', ''word a[-1] = {}''] (startup 4096 []))
     = Some ''\<newline>?redef err\<newline>''"
  by code_simp

text \<open>At the prompt of a fresh interpreter the same declaration reports \<^verbatim>\<open>bad dim\<close>.\<close>

lemma array_negative_dim_session:
  "console (main_loop 60 [''word a[-1] = {}''] (startup 4096 [])) = Some ''?bad dim err\<newline>''
   \<and> variables (main_loop 60 [''word a[-1] = {}''] (startup 4096 [])) = Some []"
  by code_simp

text \<open>A declared size of 0: \<^verbatim>\<open>assignorcreate\<close> makes a 0 into a 1 before it calls
  \<^verbatim>\<open>createintvar\<close> (the step that gives a scalar its one element), so no error is reported
  and an array of one element is created.\<close>

lemma array_zero_dim_creates:
  "variables (main_loop 60 [''word a[0] = {}''] (startup 4096 []))
     = Some [\<lparr>vname = ''a'', vtype = 17, vaddr = 20455, vword = 20475, vdim = 1,
              vbody = [Some 0]\<rparr>]
   \<and> console (main_loop 60 [''word a[0] = {}''] (startup 4096 [])) = Some ''\<newline>''"
  by code_simp

subsection \<open>The for loop of scenario 2\<close>



text \<open>The loop variable has to be a scalar: with \<^verbatim>\<open>i\<close> declared as an array the \<^verbatim>\<open>for\<close>
  statement reports \<^verbatim>\<open>bad idx\<close>.\<close>

lemma for_loop_array_variable:
  "console (main_loop 60 [''word i[3] = {}'', for_line] (startup 4096 []))
     = Some ''\<newline>?bad idx err\<newline>''"
  by code_simp

subsection \<open>The linker\<close>

lemma find_sub_Some:
  "find_sub name defs = Some d \<Longrightarrow>
     \<exists>pre post. defs = pre @ d # post
       \<and> take SUBRNUMCHARS (sname d) = take SUBRNUMCHARS name
       \<and> list_all (\<lambda>x. take SUBRNUMCHARS (sname x) \<noteq> take SUBRNUMCHARS name) pre"
proof (induction defs)
  case Nil
  then show ?case by simp
next
  case (Cons a defs)
  show ?case
  proof (cases "take SUBRNUMCHARS (sname a) = take SUBRNUMCHARS name")
    case True
    with Cons.prems have "a = d" by simp
    with True have "a # defs = [] @ d # defs
       \<and> take SUBRNUMCHARS (sname d) = take SUBRNUMCHARS name
       \<and> list_all (\<lambda>x. take SUBRNUMCHARS (sname x) \<noteq> take SUBRNUMCHARS name) []"
      by simp
    then show ?thesis by blast
  next
    case False
    with Cons.prems have "find_sub name defs = Some d" by simp
    from Cons.IH [OF this] obtain pre post where
      "defs = pre @ d # post" "take SUBRNUMCHARS (sname d) = take SUBRNUMCHARS name"
      "list_all (\<lambda>x. take SUBRNUMCHARS (sname x) \<noteq> take SUBRNUMCHARS name) pre"
      by blast
    with False have "a # defs = (a # pre) @ d # post
       \<and> take SUBRNUMCHARS (sname d) = take SUBRNUMCHARS name
       \<and> list_all (\<lambda>x. take SUBRNUMCHARS (sname x) \<noteq> take SUBRNUMCHARS name) (a # pre)"
      by simp
    then show ?thesis by blast
  qed
qed

lemma find_sub_None:
  "find_sub name defs = None \<longleftrightarrow>
     list_all (\<lambda>x. take SUBRNUMCHARS (sname x) \<noteq> take SUBRNUMCHARS name) defs"
  by (induction defs) auto

lemma length_patch [simp]: "length (patch defs base cm c) = length cm"
  by (simp add: patch_def split: option.splits)

lemma length_foldl_patch [simp]: "length (foldl (patch defs base) cm cs) = length cm"
  by (induction cs arbitrary: cm) simp_all

lemma linksubs_loop_patched:
  assumes "subs s \<noteq> []" and "list_all (placeholder_ok s) cs"
  shows "linksubs_loop cs s =
     (if list_all (resolvable (subs s)) cs
      then Ret 0 (s\<lparr>codemem := foldl (patch (subs s) (RTPCSTART s)) (codemem s) cs\<rparr>)
      else Ret 1 (s\<lparr>codemem := foldl (patch (subs s) (RTPCSTART s)) (codemem s)
                                  (takeWhile (resolvable (subs s)) cs),
                     outp := outp s @ ''?link''\<rparr>))"
  using assms
proof (induction cs arbitrary: s)
  case Nil
  then show ?case by simp
next
  case (Cons c cs)
  show ?case
  proof (cases "find_sub (sname c) (subs s)")
    case None
    then have "\<not> resolvable (subs s) c" by (simp add: resolvable_def)
    with None Cons.prems show ?thesis
      by (simp add: error_def print_def printchar_def errmsgs_def)
  next
    case (Some d)
    let ?s1 = "s\<lparr>codemem := patch (subs s) (RTPCSTART s) (codemem s) c\<rparr>"
    have fx: "emit_fixup (saddr c) (saddr d) s = Some ?s1"
      using Cons.prems(2) Some by (simp add: emit_fixup_def placeholder_ok_def Let_def patch_def)
    have same: "placeholder_ok (s\<lparr>codemem := cm\<rparr>) = placeholder_ok s"
      if "length cm = length (codemem s)" for cm
      using that by (intro ext) (simp add: placeholder_ok_def)
    have p: "subs ?s1 \<noteq> []" "list_all (placeholder_ok ?s1) cs"
      using Cons.prems by (simp_all add: same)
    have "linksubs_loop (c # cs) s = linksubs_loop cs ?s1"
      using Cons.prems(1) Some fx by simp
    also have "\<dots> =
      (if list_all (resolvable (subs ?s1)) cs
       then Ret 0 (?s1\<lparr>codemem := foldl (patch (subs ?s1) (RTPCSTART ?s1)) (codemem ?s1) cs\<rparr>)
       else Ret 1 (?s1\<lparr>codemem := foldl (patch (subs ?s1) (RTPCSTART ?s1)) (codemem ?s1)
                                      (takeWhile (resolvable (subs ?s1)) cs),
                     outp := outp ?s1 @ ''?link''\<rparr>))"
      by (rule Cons.IH [OF p])
    finally have step: "linksubs_loop (c # cs) s =
      (if list_all (resolvable (subs ?s1)) cs
       then Ret 0 (?s1\<lparr>codemem := foldl (patch (subs ?s1) (RTPCSTART ?s1)) (codemem ?s1) cs\<rparr>)
       else Ret 1 (?s1\<lparr>codemem := foldl (patch (subs ?s1) (RTPCSTART ?s1)) (codemem ?s1)
                                      (takeWhile (resolvable (subs ?s1)) cs),
                     outp := outp ?s1 @ ''?link''\<rparr>))" .
    have rc: "resolvable (subs s) c" using Some by (simp add: resolvable_def)
    show ?thesis
      unfolding step using rc by simp
  qed
qed

text \<open>C3. At the end of \<^verbatim>\<open>comp\<close>, with at least one subroutine defined, the linker goes
  through the pending calls in order and writes into the placeholder of each the address
  of the first definition that has the same first 8 name characters. At the first pending
  call without such a definition it prints \<^verbatim>\<open>?link\<close> and stops: the calls behind it keep
  their placeholders. In both cases \<^verbatim>\<open>comp\<close> then writes the code to the bytecode file and
  ends as after a compilation without error, with \<open>compile\<close> cleared.\<close>

theorem comp_finish_links:
  assumes "compile s" and "subs s \<noteq> []"
    and "list_all (placeholder_ok (emit VM_END s)) (calls s)"
    and "linked = takeWhile (resolvable (subs s)) (calls s)"
  shows "comp_finish s =
     Ret () ((writebytecode ((emit VM_END s)
        \<lparr>codemem := foldl (patch (subs s) (RTPCSTART s)) (codemem s @ [Op VM_END]) linked,
          outp := outp s @ (if linked = calls s then [] else ''?link'')\<rparr>))
        \<lparr>compile := False\<rparr>)"
proof -
  let ?s1 = "emit VM_END s"
  have a: "subs ?s1 \<noteq> []" using assms(2) by (simp add: emit_def)
  have t: "list_all (resolvable (subs s)) (calls s) \<longleftrightarrow> linked = calls s"
    unfolding assms(4) by (simp add: takeWhile_eq_all_conv list_all_iff)
  have "linksubs ?s1 = linksubs_loop (calls s) ?s1"
    by (simp add: linksubs_def emit_def)
  also note linksubs_loop_patched [OF a assms(3)]
  finally have l: "linksubs ?s1 =
     (if linked = calls s
      then Ret 0 (?s1\<lparr>codemem := foldl (patch (subs s) (RTPCSTART s)) (codemem s @ [Op VM_END])
                                    (calls s)\<rparr>)
      else Ret 1 (?s1\<lparr>codemem := foldl (patch (subs s) (RTPCSTART s)) (codemem s @ [Op VM_END])
                                    linked,
                       outp := outp s @ ''?link''\<rparr>))"
    using t by (simp add: emit_def assms(4))
  show ?thesis
  proof (cases "linked = calls s")
    case True
    with l assms(1) show ?thesis by (simp add: comp_finish_def emit_def)
  next
    case False
    with l assms(1) show ?thesis by (simp add: comp_finish_def emit_def)
  qed
qed

theorem comp_finish_links_witness:
  "map_option (\<lambda>(v, t). (subs link_state, calls link_state, outp t, bytefile t, compile t))
     (returned (comp_finish link_state))
   = Some ([\<lparr>sname = ''foo'', saddr = 9\<rparr>],
           [\<lparr>sname = ''foobar'', saddr = 1\<rparr>, \<lparr>sname = ''foo'', saddr = 5\<rparr>],
           ''....\<newline>[foo].?link\<newline>Writing out:...\<newline>'',
           Some [Op VM_JSRIMM, Byte 255, Byte 255, Op VM_DROP,
                 Op VM_JSRIMM, Byte 255, Byte 255, Op VM_DROP, Op VM_END,
                 Op VM_SPTOFP, Op VM_LDIMM, Byte 0, Byte 0, Op VM_FPTOSP, Op VM_RTS,
                 Op VM_END],
           False)"
proof -
  have h1: "compile link_state" by code_simp
  have h2: "subs link_state \<noteq> []" by code_simp
  have h3: "list_all (placeholder_ok (emit VM_END link_state)) (calls link_state)"
    by code_simp
  have h4: "[] = takeWhile (resolvable (subs link_state)) (calls link_state)"
    by code_simp
  show ?thesis
    unfolding comp_finish_links [OF h1 h2 h3 h4]
    by code_simp
qed

text \<open>The whole statement \<^verbatim>\<open>comp "out"\<close> on that program: \<^verbatim>\<open>?link\<close> is printed, the file is
  written with the placeholders of both calls as the compiler left them, and the statement
  ends like any other (\<^verbatim>\<open>main\<close> prints its newline, no \<^verbatim>\<open>err\<close>).\<close>

lemma comp_unresolved_session:
  "console (main_loop 60 [comp_line] (stored link_program))
     = Some ''....\<newline>[foo].?link\<newline>Writing out:...\<newline>\<newline>''
   \<and> written (main_loop 60 [comp_line] (stored link_program))
     = Some [Op VM_JSRIMM, Byte 255, Byte 255, Op VM_DROP,
             Op VM_JSRIMM, Byte 255, Byte 255, Op VM_DROP, Op VM_END,
             Op VM_SPTOFP, Op VM_LDIMM, Byte 0, Byte 0, Op VM_FPTOSP, Op VM_RTS,
             Op VM_END]"
  by code_simp

text \<open>When every pending call has its definition, all placeholders are written and nothing
  is reported.\<close>

lemma comp_resolved_session:
  "console (main_loop 60 [comp_line] (stored [''call foo()'', ''end'', ''sub foo()'', ''endsub'']))
     = Some ''...\<newline>[foo].\<newline>Writing out:...\<newline>\<newline>''
   \<and> written (main_loop 60 [comp_line] (stored [''call foo()'', ''end'', ''sub foo()'', ''endsub'']))
     = Some [Op VM_JSRIMM, Byte 5, Byte 0, Op VM_DROP, Op VM_END,
             Op VM_SPTOFP, Op VM_LDIMM, Byte 0, Byte 0, Op VM_FPTOSP, Op VM_RTS,
             Op VM_END]"
  by code_simp

text \<open>An error that the compiler finds in a line ends the compilation without a file:
  here a \<^verbatim>\<open>pr.dec\<close> without its argument.\<close>

lemma comp_error_no_file:
  "console (main_loop 60 [comp_line]
       (stored [''call foo()'', ''end'', ''sub foo()'', ''endsub'', ''pr.dec'']))
     = Some ''...\<newline>[foo]..?bad expr err at 5\<newline>\<newline>''
   \<and> written (main_loop 60 [comp_line]
       (stored [''call foo()'', ''end'', ''sub foo()'', ''endsub'', ''pr.dec'']))
     = None"
  by code_simp

end
